theory Spec2Isabelle
  imports Main "HOL-Library.Sublist"
begin

section \<open>The end-to-end harness \<open>tests/e2e/run_tests.py\<close>\<close>

text \<open>
  The harness is a sequential Python script. It touches the outside world in four ways:
  the file system (\<open>tempfile.mkdtemp\<close>, \<open>os.makedirs\<close>, \<open>open\<close>, \<open>os.path.exists\<close>,
  \<open>shutil.rmtree\<close>), the toolchain commands run with \<open>subprocess.check_call\<close>, the
  debugger front-end run with \<open>subprocess.Popen\<close>, and the transcript printed by \<open>log\<close>.
  The model threads a state holding the file system, the list of debugger children
  spawned so far and the transcript through every function; the answers of the
  outside world are the fields of a \<open>world\<close> record. Every Python exception is a value
  of type \<open>error\<close>.
\<close>

subsection \<open>Paths and the file system\<close>

text \<open>
  A path is the list of its components below the root, so \<open>os.path.join(d, ''a'', ''b'')\<close>
  with relative one-component names is \<open>d @ [''a'', ''b'']\<close>. The harness never reads the
  content of a file, it only tests existence, so a file system maps a path to the kind
  of node found there.
\<close>

type_synonym path = "string list"

datatype node = Dir | File

type_synonym filesystem = "path \<Rightarrow> node option"

datatype error =
    FileNotFoundError
  | FileExistsError
  | NotADirectoryError
  | IsADirectoryError
  | CalledProcessError int

definition path_exists :: "filesystem \<Rightarrow> path \<Rightarrow> bool" where
  "path_exists fs p = (fs p \<noteq> None)"

definition isdir :: "filesystem \<Rightarrow> path \<Rightarrow> bool" where
  "isdir fs p = (fs p = Some Dir)"

text \<open>\<open>os.mkdir(p)\<close>: the node must be new and its parent an existing directory.\<close>

definition mkdir :: "filesystem \<Rightarrow> path \<Rightarrow> error + filesystem" where
  "mkdir fs p =
     (if fs p \<noteq> None then Inl FileExistsError
      else if p = [] then Inl FileNotFoundError
      else (case fs (butlast p) of
              None \<Rightarrow> Inl FileNotFoundError
            | Some File \<Rightarrow> Inl NotADirectoryError
            | Some Dir \<Rightarrow> Inr (fs(p \<mapsto> Dir))))"

text \<open>
  \<open>os.makedirs(p, exist_ok=True)\<close>, following the library's recursion: when the parent is
  missing it is made first (a \<open>FileExistsError\<close> of that inner call is swallowed), then
  \<open>mkdir(p)\<close> is tried and its error is dropped exactly when \<open>p\<close> is a directory by then.
  The argument is the reversed path, so that the recursion is on the parent.
\<close>

fun makedirs_rev :: "filesystem \<Rightarrow> path \<Rightarrow> error + filesystem" where
  "makedirs_rev fs [] =
     (case mkdir fs [] of
        Inl e \<Rightarrow> if isdir fs [] then Inr fs else Inl e
      | Inr fs' \<Rightarrow> Inr fs')"
| "makedirs_rev fs (tail # rhead) =
     (case (if \<not> path_exists fs (rev rhead)
            then (case makedirs_rev fs rhead of
                    Inl e \<Rightarrow> if e = FileExistsError then Inr fs else Inl e
                  | Inr fs' \<Rightarrow> Inr fs')
            else Inr fs) of
        Inl e \<Rightarrow> Inl e
      | Inr fs1 \<Rightarrow>
          (case mkdir fs1 (rev (tail # rhead)) of
             Inl e \<Rightarrow> if isdir fs1 (rev (tail # rhead)) then Inr fs1 else Inl e
           | Inr fs2 \<Rightarrow> Inr fs2))"

definition makedirs :: "filesystem \<Rightarrow> path \<Rightarrow> error + filesystem" where
  "makedirs fs p = makedirs_rev fs (rev p)"

text \<open>
  \<open>shutil.rmtree(p)\<close> with the default \<open>ignore_errors=False\<close>, which is how \<open>main\<close> calls
  it: a missing path raises \<open>FileNotFoundError\<close>, a regular file raises
  \<open>NotADirectoryError\<close>, a directory is removed with everything below it.
\<close>

definition rmtree :: "filesystem \<Rightarrow> path \<Rightarrow> error + filesystem" where
  "rmtree fs p =
     (case fs p of
        None \<Rightarrow> Inl FileNotFoundError
      | Some File \<Rightarrow> Inl NotADirectoryError
      | Some Dir \<Rightarrow> Inr (\<lambda>q. if prefix p q then None else fs q))"

text \<open>\<open>open(p, ''w'')\<close> followed by a write: creates or truncates a regular file.\<close>

definition write_file :: "filesystem \<Rightarrow> path \<Rightarrow> error + filesystem" where
  "write_file fs p =
     (if fs p = Some Dir then Inl IsADirectoryError
      else if p = [] then Inl IsADirectoryError
      else (case fs (butlast p) of
              None \<Rightarrow> Inl FileNotFoundError
            | Some File \<Rightarrow> Inl NotADirectoryError
            | Some Dir \<Rightarrow> Inr (fs(p \<mapsto> File))))"

text \<open>A path as the string handed to a child process.\<close>

definition path_str :: "path \<Rightarrow> string" where
  "path_str p = (if p = [] then ''/'' else concat (map (\<lambda>c. ''/'' @ c) p))"

subsection \<open>Strings\<close>

text \<open>\<open>sep.join(xs)\<close>.\<close>

fun str_join :: "string \<Rightarrow> string list \<Rightarrow> string" where
  "str_join sep [] = []"
| "str_join sep [x] = x"
| "str_join sep (x # y # ys) = x @ sep @ str_join sep (y # ys)"

text \<open>\<open>needle in hay\<close> on Python strings: literal, contiguous containment.\<close>

fun str_in :: "string \<Rightarrow> string \<Rightarrow> bool" where
  "str_in needle [] = (needle = [])"
| "str_in needle (c # cs) = (prefix needle (c # cs) \<or> str_in needle cs)"

subsection \<open>Child processes and the outside world\<close>

record proc_result =
  returncode :: int
  stdout :: string
  stderr :: string

text \<open>
  A Command Invocation: what \<open>subprocess.Popen\<close> receives in \<open>run_debugger_command\<close>.
  The environment is \<open>os.environ\<close> plus the overrides listed here.
\<close>

record invocation =
  argv :: "string list"
  env_overrides :: "(string \<times> path) list"
  cwd :: path
  stdin_text :: "string option"

datatype tool_result = NotInstalled | Exited int

text \<open>
  The outside world. \<open>debugger n iv\<close> is what the \<open>n\<close>-th debugger child of the run
  (counted from 0) answers to invocation \<open>iv\<close>: the daemon behind the command line is
  stateful, so the same command may answer differently at different times. \<open>tool cmd\<close>
  is the fate of a toolchain command under \<open>check_call\<close>: the executable is missing, or
  it runs and exits with a code; the host's toolchain does not change during a run.
  \<open>tmp_names\<close> is the sequence of random names drawn by \<open>tempfile\<close>, \<open>tmp_max\<close> its
  \<open>TMP_MAX\<close>. Children are represented by their exit status and captured streams only.
\<close>

record world =
  debugger :: "nat \<Rightarrow> invocation \<Rightarrow> proc_result"
  tool :: "string list \<Rightarrow> tool_result"
  project_root :: path
  python_exe :: string
  tempdir :: path
  tmp_names :: "nat \<Rightarrow> string"
  tmp_max :: nat

datatype log_entry =
    Msg string
  | MsgCode string int
  | MsgErr string error

datatype outcome = Passed | Failed | Skipped

text \<open>
  The state of a run. \<open>spawned\<close> lists the debugger children in the order they were
  started; \<open>names_drawn\<close> counts the names taken from \<open>tempfile\<close>'s generator;
  \<open>transcript\<close> is what \<open>log\<close> printed (a value interpolated into a message that is not
  a string is kept beside the text). \<open>report\<close> is bookkeeping of the model: \<open>main\<close> keeps
  only the flag \<open>failed\<close>, and the report notes which branch each scenario block took.
\<close>

record hstate =
  fs :: filesystem
  spawned :: "invocation list"
  names_drawn :: nat
  transcript :: "log_entry list"
  report :: "(string \<times> outcome) list"

type_synonym 'a prog = "hstate \<Rightarrow> (error + 'a) \<times> hstate"

definition return :: "'a \<Rightarrow> 'a prog" where
  "return x = (\<lambda>s. (Inr x, s))"

definition raise :: "error \<Rightarrow> 'a prog" where
  "raise e = (\<lambda>s. (Inl e, s))"

definition and_then :: "'a prog \<Rightarrow> ('a \<Rightarrow> 'b prog) \<Rightarrow> 'b prog" where
  "and_then m f = (\<lambda>s. case m s of (Inl e, s') \<Rightarrow> (Inl e, s') | (Inr x, s') \<Rightarrow> f x s')"

text \<open>\<open>try: m  except ...: h e\<close>; a handler that does not catch \<open>e\<close> raises it again.\<close>

definition try_except :: "'a prog \<Rightarrow> (error \<Rightarrow> 'a prog) \<Rightarrow> 'a prog" where
  "try_except m h = (\<lambda>s. case m s of (Inl e, s') \<Rightarrow> h e s' | (Inr x, s') \<Rightarrow> (Inr x, s'))"

text \<open>
  \<open>try: m  finally: c\<close>: \<open>c\<close> runs on every path; an exception of \<open>c\<close> replaces the
  outcome of \<open>m\<close>.
\<close>

definition try_finally :: "'a prog \<Rightarrow> unit prog \<Rightarrow> 'a prog" where
  "try_finally m c =
     (\<lambda>s. case m s of (r, s') \<Rightarrow>
            (case c s' of (Inl e, s'') \<Rightarrow> (Inl e, s'') | (Inr u, s'') \<Rightarrow> (r, s'')))"

text \<open>A file-system call of the library, run on the state.\<close>

definition fs_call :: "(filesystem \<Rightarrow> error + filesystem) \<Rightarrow> unit prog" where
  "fs_call f = (\<lambda>s. case f (fs s) of Inl e \<Rightarrow> (Inl e, s) | Inr fs' \<Rightarrow> (Inr (), s\<lparr>fs := fs'\<rparr>))"

definition exists_prog :: "path \<Rightarrow> bool prog" where
  "exists_prog p = (\<lambda>s. (Inr (path_exists (fs s) p), s))"

text \<open>
  \<open>tempfile.mkdtemp(prefix=pfx)\<close>: up to \<open>TMP_MAX\<close> times, draw the next random name and
  try \<open>mkdir\<close>; a name that exists is skipped, any other error is raised, and when no
  attempt is left \<open>FileExistsError\<close> is raised.
\<close>

fun mkdtemp_loop :: "world \<Rightarrow> string \<Rightarrow> nat \<Rightarrow> path prog" where
  "mkdtemp_loop w pfx 0 = raise FileExistsError"
| "mkdtemp_loop w pfx (Suc attempts) =
     (\<lambda>s. let file = tempdir w @ [pfx @ tmp_names w (names_drawn s)];
               s1 = s\<lparr>names_drawn := Suc (names_drawn s)\<rparr>
           in case mkdir (fs s1) file of
                Inl e \<Rightarrow> if e = FileExistsError then mkdtemp_loop w pfx attempts s1
                         else (Inl e, s1)
              | Inr fs' \<Rightarrow> (Inr file, s1\<lparr>fs := fs'\<rparr>))"

definition mkdtemp :: "world \<Rightarrow> string \<Rightarrow> path prog" where
  "mkdtemp w pfx = mkdtemp_loop w pfx (tmp_max w)"

text \<open>
  \<open>subprocess.check_call(cmd)\<close>: \<open>FileNotFoundError\<close> when the executable is missing,
  \<open>CalledProcessError\<close> when it exits with a non-zero code.
\<close>

definition check_call :: "world \<Rightarrow> string list \<Rightarrow> unit prog" where
  "check_call w cmd =
     (case tool w cmd of
        NotInstalled \<Rightarrow> raise FileNotFoundError
      | Exited rc \<Rightarrow> if rc = 0 then return () else raise (CalledProcessError rc))"

text \<open>
  \<open>subprocess.Popen(...)\<close> followed by \<open>communicate\<close>: one more debugger child, answered
  by the world.
\<close>

definition popen_communicate :: "world \<Rightarrow> invocation \<Rightarrow> proc_result prog" where
  "popen_communicate w iv =
     (\<lambda>s. (Inr (debugger w (length (spawned s)) iv), s\<lparr>spawned := spawned s @ [iv]\<rparr>))"

subsection \<open>Configuration constants\<close>

definition DEBUGGER_BIN :: "world \<Rightarrow> path" where
  "DEBUGGER_BIN w = project_root w @ [''target'', ''release'', ''debugger'']"

definition TEST_DIR :: "world \<Rightarrow> path" where
  "TEST_DIR w = project_root w @ [''tests'', ''e2e'']"

definition GCC :: string where "GCC = ''gcc''"
definition RUSTC :: string where "RUSTC = ''rustc''"
definition GO :: string where "GO = ''go''"

definition PYTHON :: "world \<Rightarrow> string" where
  "PYTHON w = python_exe w"

subsection \<open>The functions of the harness\<close>

definition log :: "log_entry \<Rightarrow> unit prog" where
  "log msg = (\<lambda>s. (Inr (), s\<lparr>transcript := transcript s @ [msg]\<rparr>))"

definition compile_c :: "world \<Rightarrow> path \<Rightarrow> path \<Rightarrow> unit prog" where
  "compile_c w source output =
     (let cmd = [GCC, ''-g'', ''-o'', path_str output, path_str source] in
      and_then (log (Msg (''Compiling C: '' @ str_join '' '' cmd))) (\<lambda>_.
      check_call w cmd))"

definition compile_rust :: "world \<Rightarrow> path \<Rightarrow> path \<Rightarrow> unit prog" where
  "compile_rust w source output =
     (let cmd = [RUSTC, ''-g'', ''-o'', path_str output, path_str source] in
      and_then (log (Msg (''Compiling Rust: '' @ str_join '' '' cmd))) (\<lambda>_.
      check_call w cmd))"

definition compile_go :: "world \<Rightarrow> path \<Rightarrow> path \<Rightarrow> unit prog" where
  "compile_go w source output =
     (let cmd = [GO, ''build'', ''-gcflags=all=-N -l'', ''-o'', path_str output, path_str source] in
      and_then (log (Msg (''Compiling Go: '' @ str_join '' '' cmd))) (\<lambda>_.
      check_call w cmd))"

text \<open>
  \<open>setup_config\<close>: a fresh temporary directory, \<open>debugger-cli\<close> below it and the file
  \<open>config.toml\<close> in there. The text written to the file is not modelled.
\<close>

definition setup_config :: "world \<Rightarrow> path prog" where
  "setup_config w =
     and_then (mkdtemp w ''debugger-test-config-'') (\<lambda>config_dir.
     let app_config_dir = config_dir @ [''debugger-cli''] in
     and_then (fs_call (\<lambda>fs. makedirs fs app_config_dir)) (\<lambda>_.
     let config_path = app_config_dir @ [''config.toml''] in
     and_then (fs_call (\<lambda>fs. write_file fs config_path)) (\<lambda>_.
     return config_dir)))"

text \<open>
  \<open>run_debugger_command(cmd, config_dir, input_cmds)\<close>. A falsy \<open>config_dir\<close> (\<open>None\<close> or
  the empty string) is \<open>None\<close> here. The result is the triple the source returns.
\<close>

definition run_debugger_command ::
  "world \<Rightarrow> string list \<Rightarrow> path option \<Rightarrow> string option \<Rightarrow> (bool \<times> string \<times> string) prog" where
  "run_debugger_command w cmd config_dir input_cmds =
     (let full_cmd = path_str (DEBUGGER_BIN w) # cmd in
      and_then (log (Msg (''Running: '' @ str_join '' '' full_cmd))) (\<lambda>_.
      and_then (case config_dir of
                  None \<Rightarrow> return []
                | Some d \<Rightarrow>
                    (let env = [(''XDG_CONFIG_HOME'', d), (''XDG_RUNTIME_DIR'', d @ [''runtime''])] in
                     and_then (fs_call (\<lambda>fs. makedirs fs (d @ [''runtime'']))) (\<lambda>_.
                     return env))) (\<lambda>env.
      and_then (popen_communicate w
                  \<lparr>argv = full_cmd, env_overrides = env, cwd = TEST_DIR w,
                   stdin_text = input_cmds\<rparr>) (\<lambda>process.
      if returncode process \<noteq> 0 then
        and_then (log (MsgCode ''Command failed with code '' (returncode process))) (\<lambda>_.
        and_then (log (Msg (''STDOUT: '' @ stdout process))) (\<lambda>_.
        and_then (log (Msg (''STDERR: '' @ stderr process))) (\<lambda>_.
        return (False, stdout process, stderr process))))
      else return (True, stdout process, stderr process)))))"

text \<open>
  \<open>test_program\<close>. \<open>compiler_func\<close> is \<open>None\<close> for an interpreted language; \<open>adapter_args\<close>
  is the list appended to the start command (\<open>None\<close> and the empty list both leave it
  unchanged). The first step yields the path to debug, or \<open>None\<close> where the source
  returns \<open>False\<close> from its \<open>except\<close> branch. The pause \<open>time.sleep(1.0)\<close> before
  the \<open>output\<close> command changes nothing in the state and is left out.
\<close>

definition test_program ::
  "world \<Rightarrow> string \<Rightarrow> string \<Rightarrow> (path \<Rightarrow> path \<Rightarrow> unit prog) option \<Rightarrow> string \<Rightarrow>
   path option \<Rightarrow> string list \<Rightarrow> bool prog" where
  "test_program w name source_file compiler_func expected_output_substr config_dir adapter_args =
     and_then (log (Msg (''=== Testing '' @ name @ '' ===''))) (\<lambda>_.
     let binary_path = TEST_DIR w @ [name];
         source_path = TEST_DIR w @ [source_file] in
     and_then (case compiler_func of
                 Some f \<Rightarrow>
                   try_except
                     (and_then (f source_path binary_path) (\<lambda>_. return (Some binary_path)))
                     (\<lambda>e. and_then (log (MsgErr ''Compilation failed: '' e)) (\<lambda>_. return None))
               | None \<Rightarrow> return (Some source_path)) (\<lambda>compiled.
     case compiled of
       None \<Rightarrow> return False
     | Some binary_path \<Rightarrow>
     and_then (run_debugger_command w [''stop''] config_dir None) (\<lambda>_.
     and_then (log (Msg ''Starting debugger...'')) (\<lambda>_.
     let start_cmd = [''start'', path_str binary_path, ''--stop-on-entry''] @ adapter_args in
     and_then (run_debugger_command w start_cmd config_dir None) (\<lambda>(ok, out, err).
     if \<not> ok then and_then (log (Msg ''Failed to start debugger'')) (\<lambda>_. return False) else
     and_then (log (Msg ''Setting breakpoint...'')) (\<lambda>_.
     and_then (run_debugger_command w [''breakpoint'', ''add'', ''main''] config_dir None) (\<lambda>(ok, out, err).
     if \<not> ok then and_then (log (Msg ''Failed to set breakpoint'')) (\<lambda>_. return False) else
     and_then (log (Msg ''Continuing execution from entry...'')) (\<lambda>_.
     and_then (run_debugger_command w [''continue''] config_dir None) (\<lambda>(ok, out, err).
     if \<not> ok then and_then (log (Msg (''Failed to continue from entry: '' @ err))) (\<lambda>_. return False) else
     and_then (log (Msg ''Waiting for breakpoint stop...'')) (\<lambda>_.
     and_then (run_debugger_command w [''await''] config_dir None) (\<lambda>(ok, out, err).
     if \<not> ok then return False else
     and_then (log (Msg (''Await output:'' @ [CHR 0x0A] @ out))) (\<lambda>_.
     and_then (log (Msg ''Checking threads...'')) (\<lambda>_.
     and_then (run_debugger_command w [''threads''] config_dir None) (\<lambda>(ok, out_threads, err).
     and_then (log (Msg (''Threads:'' @ [CHR 0x0A] @ out_threads))) (\<lambda>_.
     and_then (log (Msg ''Inspecting locals...'')) (\<lambda>_.
     and_then (run_debugger_command w [''locals''] config_dir None) (\<lambda>(ok, out_locals, err).
     if \<not> ok then return False else
     and_then (log (Msg (''Locals:'' @ [CHR 0x0A] @ out_locals))) (\<lambda>_.
     and_then (if \<not> str_in ''x'' out_locals \<and> \<not> str_in ''y'' out_locals
               then log (Msg ''WARNING: Locals x/y not found'') else return ()) (\<lambda>_.
     and_then (log (Msg ''Continuing to finish...'')) (\<lambda>_.
     and_then (run_debugger_command w [''continue''] config_dir None) (\<lambda>(ok, out, err).
     if \<not> ok then return False else
     and_then (log (Msg ''Waiting for program exit...'')) (\<lambda>_.
     and_then (run_debugger_command w [''await''] config_dir None) (\<lambda>(ok, out, err).
     and_then (log (Msg ''Checking output...'')) (\<lambda>_.
     and_then (run_debugger_command w [''output''] config_dir None) (\<lambda>(ok, out_prog, err).
     and_then (log (Msg (''Program Output:'' @ [CHR 0x0A] @ out_prog))) (\<lambda>_.
     if \<not> str_in expected_output_substr out_prog then
       and_then (log (Msg (''FAILED: Expected output '' @ [CHR 0x27] @ expected_output_substr
                            @ [CHR 0x27] @ '' not found.''))) (\<lambda>_. return False)
     else
       and_then (log (Msg (''SUCCESS: '' @ name @ '' passed.''))) (\<lambda>_.
       return True)))))))))))))))))))))))))))"

text \<open>
  \<open>test_complex_python\<close>. The list \<open>commands\<close> of the source is never used; the script
  piped to the debugger is \<open>input_script\<close>.
\<close>

definition input_script :: string where
  "input_script = str_join [CHR 0x0A]
     [''break scenarios.py:8'', ''continue'', ''continue'', ''bt 5'', ''locals'',
      ''break remove --all'', ''continue'', ''await'', ''output'']"

definition test_complex_python :: "world \<Rightarrow> path option \<Rightarrow> bool prog" where
  "test_complex_python w config_dir =
     and_then (log (Msg ''=== Testing Complex Python App ==='')) (\<lambda>_.
     let app_dir = project_root w @ [''tests'', ''complex_app''];
         main_py = app_dir @ [''main.py''] in
     and_then (exists_prog main_py) (\<lambda>found.
     if \<not> found then
       and_then (log (Msg (''Complex app not found at '' @ path_str main_py))) (\<lambda>_. return False)
     else
     and_then (run_debugger_command w [''stop''] config_dir None) (\<lambda>_.
     and_then (log (Msg ''Starting debugger on complex app...'')) (\<lambda>_.
     let cmd = [''start'', path_str main_py, ''--adapter'', ''debugpy'', ''--stop-on-entry''] in
     and_then (run_debugger_command w cmd config_dir None) (\<lambda>(ok, out, err).
     if \<not> ok then return False else
     and_then (run_debugger_command w [] config_dir (Some input_script)) (\<lambda>(ok, out, err).
     if \<not> str_in ''Complex App Finished'' out then
       and_then (log (Msg (''FAILED: Did not see '' @ [CHR 0x27] @ ''Complex App Finished''
                            @ [CHR 0x27]))) (\<lambda>_.
       and_then (log (Msg (''Output: '' @ out))) (\<lambda>_. return False))
     else
       and_then (log (Msg ''SUCCESS: Complex Python App passed basic run.'')) (\<lambda>_.
       return True)))))))"

text \<open>\<open>check_debugpy\<close> catches \<open>CalledProcessError\<close> only.\<close>

definition check_debugpy :: "world \<Rightarrow> bool prog" where
  "check_debugpy w =
     try_except
       (and_then (check_call w [PYTHON w, ''-c'', ''import debugpy'']) (\<lambda>_. return True))
       (\<lambda>e. case e of CalledProcessError rc \<Rightarrow> return False | _ \<Rightarrow> raise e)"

text \<open>\<open>check_delve\<close> catches \<open>CalledProcessError\<close> and \<open>FileNotFoundError\<close>.\<close>

definition check_delve :: "world \<Rightarrow> bool prog" where
  "check_delve w =
     try_except
       (and_then (check_call w [''dlv'', ''version'']) (\<lambda>_. return True))
       (\<lambda>e. case e of
               CalledProcessError rc \<Rightarrow> return False
             | FileNotFoundError \<Rightarrow> return False
             | _ \<Rightarrow> raise e)"

subsection \<open>\<open>main\<close>\<close>

text \<open>
  The \<open>try\<close> block of \<open>main\<close> is five blocks in a row, one per scenario, each of which
  may set \<open>failed\<close>. Each block below takes the flag and returns it updated; \<open>note_outcome\<close>
  writes the model's report and has no counterpart in the source.
\<close>

definition note_outcome :: "string \<Rightarrow> outcome \<Rightarrow> unit prog" where
  "note_outcome name oc = (\<lambda>s. (Inr (), s\<lparr>report := report s @ [(name, oc)]\<rparr>))"

definition verdict :: "bool \<Rightarrow> outcome" where
  "verdict passed = (if passed then Passed else Failed)"

definition test_c_block :: "world \<Rightarrow> path \<Rightarrow> bool \<Rightarrow> bool prog" where
  "test_c_block w config_dir failed =
     and_then (test_program w ''test_c'' ''hello_world.c'' (Some (compile_c w))
                 ''Hello from C! Sum is 30'' (Some config_dir) []) (\<lambda>passed.
     and_then (note_outcome ''test_c'' (verdict passed)) (\<lambda>_.
     return (if \<not> passed then True else failed)))"

definition test_rust_block :: "world \<Rightarrow> path \<Rightarrow> bool \<Rightarrow> bool prog" where
  "test_rust_block w config_dir failed =
     and_then (test_program w ''test_rs'' ''hello_world.rs'' (Some (compile_rust w))
                 ''Hello from Rust! Sum is 30'' (Some config_dir) []) (\<lambda>passed.
     and_then (note_outcome ''test_rs'' (verdict passed)) (\<lambda>_.
     return (if \<not> passed then True else failed)))"

definition test_python_block :: "world \<Rightarrow> path \<Rightarrow> bool \<Rightarrow> bool prog" where
  "test_python_block w config_dir failed =
     and_then (check_debugpy w) (\<lambda>have_debugpy.
     if have_debugpy then
       (let py_test_file = TEST_DIR w @ [''hello_world.py''] in
        and_then (exists_prog py_test_file) (\<lambda>found.
        and_then (if \<not> found then fs_call (\<lambda>fs. write_file fs py_test_file) else return ()) (\<lambda>_.
        and_then (test_program w ''test_py'' ''hello_world.py'' None
                    ''Hello from Python! Sum is 30'' (Some config_dir)
                    [''--adapter'', ''debugpy'']) (\<lambda>passed.
        and_then (note_outcome ''test_py'' (verdict passed)) (\<lambda>_.
        return (if \<not> passed then True else failed))))))
     else
       and_then (log (Msg ''Skipping Python test (debugpy not found)'')) (\<lambda>_.
       and_then (note_outcome ''test_py'' Skipped) (\<lambda>_.
       return failed)))"

definition test_go_block :: "world \<Rightarrow> path \<Rightarrow> bool \<Rightarrow> bool prog" where
  "test_go_block w config_dir failed =
     and_then (check_delve w) (\<lambda>have_dlv.
     if have_dlv then
       (let go_test_file = TEST_DIR w @ [''hello_world.go''] in
        and_then (exists_prog go_test_file) (\<lambda>found.
        if found then
          and_then (test_program w ''test_go'' ''hello_world.go'' (Some (compile_go w))
                      ''Hello from Go! Sum is 30'' (Some config_dir) [''--adapter'', ''go'']) (\<lambda>passed.
          and_then (note_outcome ''test_go'' (verdict passed)) (\<lambda>_.
          return (if \<not> passed then True else failed)))
        else
          and_then (log (Msg ''Skipping Go test (hello_world.go not found)'')) (\<lambda>_.
          and_then (note_outcome ''test_go'' Skipped) (\<lambda>_.
          return failed))))
     else
       and_then (log (Msg ''Skipping Go test (dlv not found)'')) (\<lambda>_.
       and_then (note_outcome ''test_go'' Skipped) (\<lambda>_.
       return failed)))"

definition test_complex_block :: "world \<Rightarrow> path \<Rightarrow> bool \<Rightarrow> bool prog" where
  "test_complex_block w config_dir failed =
     and_then (check_debugpy w) (\<lambda>have_debugpy.
     if have_debugpy then
       and_then (test_complex_python w (Some config_dir)) (\<lambda>passed.
       and_then (note_outcome ''complex_python'' (verdict passed)) (\<lambda>_.
       return (if \<not> passed then True else failed)))
     else
       and_then (note_outcome ''complex_python'' Skipped) (\<lambda>_.
       return failed))"

definition main_try :: "world \<Rightarrow> path \<Rightarrow> bool prog" where
  "main_try w config_dir =
     and_then (test_c_block w config_dir False) (\<lambda>failed.
     and_then (test_rust_block w config_dir failed) (\<lambda>failed.
     and_then (test_python_block w config_dir failed) (\<lambda>failed.
     and_then (test_go_block w config_dir failed) (\<lambda>failed.
     test_complex_block w config_dir failed))))"

text \<open>
  \<open>main\<close> returns the argument of the \<open>sys.exit\<close> it reaches; every \<open>sys.exit\<close> of the
  source is the last statement of its path. An exception that leaves \<open>main\<close> is the
  \<open>Inl\<close> result: the interpreter prints the traceback and exits with status 1, which is
  what \<open>exit_status\<close> says.
\<close>

definition main :: "world \<Rightarrow> int prog" where
  "main w =
     and_then (exists_prog (DEBUGGER_BIN w)) (\<lambda>found.
     if \<not> found then
       and_then (log (Msg (''Debugger binary not found at '' @ path_str (DEBUGGER_BIN w)
                            @ ''. Please build release first.''))) (\<lambda>_.
       return 1)
     else
     and_then (setup_config w) (\<lambda>config_dir.
     and_then (log (Msg (''Created temp config dir at '' @ path_str config_dir))) (\<lambda>_.
     and_then (try_finally (main_try w config_dir)
                 (fs_call (\<lambda>fs. rmtree fs config_dir))) (\<lambda>failed.
     if failed then return 1
     else and_then (log (Msg ''All tests passed!'')) (\<lambda>_. return 0)))))"

definition exit_status :: "error + int \<Rightarrow> int" where
  "exit_status r = (case r of Inl e \<Rightarrow> 1 | Inr code \<Rightarrow> code)"

text \<open>A run of the script from a given file system, with nothing spawned or printed yet.\<close>

definition initial :: "filesystem \<Rightarrow> hstate" where
  "initial fs0 = \<lparr>fs = fs0, spawned = [], names_drawn = 0, transcript = [], report = []\<rparr>"

definition run :: "world \<Rightarrow> filesystem \<Rightarrow> (error + int) \<times> hstate" where
  "run w fs0 = main w (initial fs0)"

section \<open>Vocabulary for the properties\<close>

text \<open>
  The definitions of this section are not part of the harness: they name what the
  theorems below talk about, and the lemmas relate them to the code.
\<close>

text \<open>The environment overrides of an invocation that carries the config root \<open>d\<close>.\<close>

definition env_of :: "path \<Rightarrow> (string \<times> path) list" where
  "env_of d = [(''XDG_CONFIG_HOME'', d), (''XDG_RUNTIME_DIR'', d @ [''runtime''])]"

definition invocation_of :: "world \<Rightarrow> string list \<Rightarrow> path \<Rightarrow> string option \<Rightarrow> invocation" where
  "invocation_of w cmd d input_cmds =
     \<lparr>argv = path_str (DEBUGGER_BIN w) # cmd, env_overrides = env_of d,
      cwd = TEST_DIR w, stdin_text = input_cmds\<rparr>"

text \<open>The Session Outcome \<open>run_debugger_command\<close> makes of a finished child.\<close>

definition session_outcome :: "proc_result \<Rightarrow> bool \<times> string \<times> string" where
  "session_outcome p = (returncode p = 0, stdout p, stderr p)"

text \<open>
  The config root is a directory and nothing but a directory can be found at the
  runtime-socket root: what \<open>setup_config\<close> establishes.
\<close>

definition env_ready :: "path \<Rightarrow> hstate \<Rightarrow> bool" where
  "env_ready d s = (fs s d = Some Dir \<and> fs s (d @ [''runtime'']) \<noteq> Some File)"

text \<open>A compile function that touches nothing but the transcript.\<close>

definition quiet :: "(path \<Rightarrow> path \<Rightarrow> unit prog) \<Rightarrow> bool" where
  "quiet f = (\<forall>a b s. fs (snd (f a b s)) = fs s \<and> spawned (snd (f a b s)) = spawned s \<and>
                       names_drawn (snd (f a b s)) = names_drawn s \<and>
                       report (snd (f a b s)) = report s)"

definition quiet_opt :: "(path \<Rightarrow> path \<Rightarrow> unit prog) option \<Rightarrow> bool" where
  "quiet_opt cf = (case cf of None \<Rightarrow> True | Some f \<Rightarrow> quiet f)"

text \<open>
  The path handed to the debugger after step 1 of \<open>test_program\<close>, or \<open>None\<close> when the
  compile function raised.
\<close>

definition debug_target ::
  "world \<Rightarrow> string \<Rightarrow> string \<Rightarrow> (path \<Rightarrow> path \<Rightarrow> unit prog) option \<Rightarrow> hstate \<Rightarrow> path option" where
  "debug_target w name source_file cf s =
     (case cf of
        None \<Rightarrow> Some (TEST_DIR w @ [source_file])
      | Some f \<Rightarrow>
          (case fst (f (TEST_DIR w @ [source_file]) (TEST_DIR w @ [name])
                      (snd (log (Msg (''=== Testing '' @ name @ '' ==='')) s))) of
             Inl e \<Rightarrow> None
           | Inr u \<Rightarrow> Some (TEST_DIR w @ [name])))"

text \<open>The \<open>k\<close>-th debugger child of the run exits with code 0 on command \<open>cmd\<close>.\<close>

definition step_ok :: "world \<Rightarrow> path \<Rightarrow> nat \<Rightarrow> string list \<Rightarrow> bool" where
  "step_ok w d k cmd = (returncode (debugger w k (invocation_of w cmd d None)) = 0)"

definition start_cmd :: "path \<Rightarrow> string list \<Rightarrow> string list" where
  "start_cmd target adapter_args = [''start'', path_str target, ''--stop-on-entry''] @ adapter_args"

text \<open>The ten commands of a full session of \<open>test_program\<close>, in order.\<close>

definition session_cmds :: "path \<Rightarrow> string list \<Rightarrow> string list list" where
  "session_cmds target adapter_args =
     [[''stop''], start_cmd target adapter_args, [''breakpoint'', ''add'', ''main''],
      [''continue''], [''await''], [''threads''], [''locals''], [''continue''], [''await''],
      [''output'']]"

text \<open>
  How many of them a session starting as child number \<open>n\<close> issues: it ends at the first
  required step that fails.
\<close>

definition commands_issued :: "world \<Rightarrow> path \<Rightarrow> nat \<Rightarrow> path \<Rightarrow> string list \<Rightarrow> nat" where
  "commands_issued w d n target adapter_args =
     (if \<not> step_ok w d (n + 1) (start_cmd target adapter_args) then 2
      else if \<not> step_ok w d (n + 2) [''breakpoint'', ''add'', ''main''] then 3
      else if \<not> step_ok w d (n + 3) [''continue''] then 4
      else if \<not> step_ok w d (n + 4) [''await''] then 5
      else if \<not> step_ok w d (n + 6) [''locals''] then 7
      else if \<not> step_ok w d (n + 7) [''continue''] then 8
      else 10)"

text \<open>The text captured from the \<open>output\<close> command of that session.\<close>

definition captured_output :: "world \<Rightarrow> path \<Rightarrow> nat \<Rightarrow> string" where
  "captured_output w d n = stdout (debugger w (n + 9) (invocation_of w [''output''] d None))"

text \<open>The verdict of a session that starts as child number \<open>n\<close>.\<close>

definition session_passes ::
  "world \<Rightarrow> path \<Rightarrow> nat \<Rightarrow> path \<Rightarrow> string list \<Rightarrow> string \<Rightarrow> bool" where
  "session_passes w d n target adapter_args expected =
     (commands_issued w d n target adapter_args = 10 \<and>
      str_in expected (captured_output w d n))"

text \<open>The same for \<open>test_complex_python\<close>: three children, the last fed the script.\<close>

definition complex_main_py :: "world \<Rightarrow> path" where
  "complex_main_py w = project_root w @ [''tests'', ''complex_app'', ''main.py'']"

definition complex_start_cmd :: "world \<Rightarrow> string list" where
  "complex_start_cmd w =
     [''start'', path_str (complex_main_py w), ''--adapter'', ''debugpy'', ''--stop-on-entry'']"

definition complex_invocations :: "world \<Rightarrow> path \<Rightarrow> invocation list" where
  "complex_invocations w d =
     [invocation_of w [''stop''] d None, invocation_of w (complex_start_cmd w) d None,
      invocation_of w [] d (Some input_script)]"

definition complex_issued :: "world \<Rightarrow> path \<Rightarrow> hstate \<Rightarrow> nat" where
  "complex_issued w d s =
     (if \<not> path_exists (fs s) (complex_main_py w) then 0
      else if \<not> step_ok w d (length (spawned s) + 1) (complex_start_cmd w) then 2
      else 3)"

definition complex_passes :: "world \<Rightarrow> path \<Rightarrow> hstate \<Rightarrow> bool" where
  "complex_passes w d s =
     (complex_issued w d s = 3 \<and>
      str_in ''Complex App Finished''
        (stdout (debugger w (length (spawned s) + 2) (invocation_of w [] d (Some input_script)))))"

text \<open>
  In a list of debugger commands, every \<open>start\<close> comes right after a \<open>stop\<close>; the flag
  says whether the command before the list was a \<open>stop\<close>.
\<close>

fun starts_guarded :: "bool \<Rightarrow> string list list \<Rightarrow> bool" where
  "starts_guarded after_stop [] = True"
| "starts_guarded after_stop (c # cs) =
     ((if take 1 c = [''start''] then after_stop else True) \<and> starts_guarded (c = [''stop'']) cs)"

text \<open>The command of an invocation: its argument vector without the binary.\<close>

definition command_of :: "invocation \<Rightarrow> string list" where
  "command_of iv = tl (argv iv)"

text \<open>A file system that is a tree: every node below the root hangs in a directory.\<close>

definition tree_fs :: "filesystem \<Rightarrow> bool" where
  "tree_fs f = (\<forall>p. f p \<noteq> None \<and> p \<noteq> [] \<longrightarrow> f (butlast p) = Some Dir)"

text \<open>The five scenarios, as \<open>main\<close> names them in the report.\<close>

definition scenario_names :: "string list" where
  "scenario_names = [''test_c'', ''test_rs'', ''test_py'', ''test_go'', ''complex_python'']"


text \<open>An invocation that carries the config root \<open>d\<close>.\<close>

definition carries :: "path \<Rightarrow> invocation \<Rightarrow> bool" where
  "carries d iv = (env_overrides iv = env_of d)"

text \<open>
  The children a block of \<open>main\<close> adds to the run: all of them carry \<open>d\<close>, and every
  \<open>start\<close> among them comes right after a \<open>stop\<close> of the same block.
\<close>

definition segment_ok :: "path \<Rightarrow> invocation list \<Rightarrow> bool" where
  "segment_ok d seg =
     (list_all (carries d) seg \<and> starts_guarded False (map command_of seg) \<and>
      starts_guarded True (map command_of seg))"

text \<open>
  What a scenario block of \<open>main\<close> does to the state: it keeps the environment ready,
  adds a well-formed segment of children, and either raises without a report entry or
  adds one entry and sets \<open>failed\<close> exactly when that entry is \<open>Failed\<close>.
\<close>

definition block_result ::
  "path \<Rightarrow> string \<Rightarrow> bool \<Rightarrow> hstate \<Rightarrow> (error + bool) \<times> hstate \<Rightarrow> bool" where
  "block_result d name failed s rs =
     (env_ready d (snd rs) \<and>
      (\<exists>seg. spawned (snd rs) = spawned s @ seg \<and> segment_ok d seg) \<and>
      (case fst rs of
         Inl e \<Rightarrow> report (snd rs) = report s
       | Inr f \<Rightarrow> (\<exists>oc. report (snd rs) = report s @ [(name, oc)] \<and> f = (failed \<or> oc = Failed))))"

text \<open>Blocks run in a row, the flag handed from one to the next.\<close>

fun run_blocks :: "(bool \<Rightarrow> bool prog) list \<Rightarrow> bool \<Rightarrow> bool prog" where
  "run_blocks [] failed = return failed"
| "run_blocks (b # bs) failed = and_then (b failed) (run_blocks bs)"

text \<open>
  What a row of blocks named \<open>names\<close> does: the report grows by one entry per block
  that ran, all of them when nothing was raised, and the flag then says whether one of
  the entries is \<open>Failed\<close>.
\<close>

definition blocks_result ::
  "path \<Rightarrow> string list \<Rightarrow> bool \<Rightarrow> hstate \<Rightarrow> (error + bool) \<times> hstate \<Rightarrow> bool" where
  "blocks_result d names failed s rs =
     (env_ready d (snd rs) \<and>
      (\<exists>seg. spawned (snd rs) = spawned s @ seg \<and> segment_ok d seg) \<and>
      (\<exists>ocs. report (snd rs) = report s @ zip names ocs \<and> length ocs \<le> length names \<and>
         (case fst rs of
            Inl e \<Rightarrow> length ocs < length names
          | Inr f \<Rightarrow> length ocs = length names \<and> f = (failed \<or> Failed \<in> set ocs))))"

text \<open>The state in which the \<open>try\<close> block of \<open>main\<close> starts, once \<open>setup_config\<close> returned \<open>d\<close>.\<close>

definition try_start :: "world \<Rightarrow> path \<Rightarrow> hstate \<Rightarrow> hstate" where
  "try_start w d s =
     snd (log (Msg (''Created temp config dir at '' @ path_str d)) (snd (setup_config w s)))"

text \<open>
  The verdict and the children of \<open>test_program\<close> run in state \<open>s\<close>: nothing when the
  compile step raised, else those of the session that starts as child number
  \<open>length (spawned s)\<close>.
\<close>

definition scenario_passes ::
  "world \<Rightarrow> path \<Rightarrow> string \<Rightarrow> string \<Rightarrow> (path \<Rightarrow> path \<Rightarrow> unit prog) option \<Rightarrow> string \<Rightarrow>
   string list \<Rightarrow> hstate \<Rightarrow> bool" where
  "scenario_passes w d name source_file cf expected adapter_args s =
     (case debug_target w name source_file cf s of
        None \<Rightarrow> False
      | Some t \<Rightarrow> session_passes w d (length (spawned s)) t adapter_args expected)"

definition scenario_trace ::
  "world \<Rightarrow> path \<Rightarrow> string \<Rightarrow> string \<Rightarrow> (path \<Rightarrow> path \<Rightarrow> unit prog) option \<Rightarrow>
   string list \<Rightarrow> hstate \<Rightarrow> invocation list" where
  "scenario_trace w d name source_file cf adapter_args s =
     (case debug_target w name source_file cf s of
        None \<Rightarrow> []
      | Some t \<Rightarrow> map (\<lambda>c. invocation_of w c d None)
                   (take (commands_issued w d (length (spawned s)) t adapter_args)
                      (session_cmds t adapter_args)))"

text \<open>The toolchain commands of \<open>main\<close>.\<close>

definition gcc_cmd :: "world \<Rightarrow> string list" where
  "gcc_cmd w = [GCC, ''-g'', ''-o'', path_str (TEST_DIR w @ [''test_c'']),
                path_str (TEST_DIR w @ [''hello_world.c''])]"

definition rustc_cmd :: "world \<Rightarrow> string list" where
  "rustc_cmd w = [RUSTC, ''-g'', ''-o'', path_str (TEST_DIR w @ [''test_rs'']),
                  path_str (TEST_DIR w @ [''hello_world.rs''])]"

definition go_cmd :: "world \<Rightarrow> string list" where
  "go_cmd w = [GO, ''build'', ''-gcflags=all=-N -l'', ''-o'', path_str (TEST_DIR w @ [''test_go'']),
               path_str (TEST_DIR w @ [''hello_world.go''])]"

definition debugpy_probe :: "world \<Rightarrow> string list" where
  "debugpy_probe w = [PYTHON w, ''-c'', ''import debugpy'']"

definition delve_probe :: "string list" where
  "delve_probe = [''dlv'', ''version'']"

text \<open>The cleanup of \<open>main\<close>: the statement of its \<open>finally\<close> block.\<close>

definition destroy :: "path \<Rightarrow> unit prog" where
  "destroy config_dir = fs_call (\<lambda>fs. rmtree fs config_dir)"


section \<open>Concrete hosts\<close>

text \<open>
  A small host to run the model on: the repository is checked out at \<open>/repo\<close> with the
  debugger built, the temporary directory is \<open>/tmp\<close>. \<open>bare_fs\<close> is the same host before
  the debugger was built.
\<close>

definition host_fs :: filesystem where
  "host_fs = map_of
     [([], Dir), ([''tmp''], Dir), ([''repo''], Dir), ([''repo'', ''target''], Dir),
      ([''repo'', ''target'', ''release''], Dir),
      ([''repo'', ''target'', ''release'', ''debugger''], File),
      ([''repo'', ''tests''], Dir), ([''repo'', ''tests'', ''e2e''], Dir)]"

definition bare_fs :: filesystem where
  "bare_fs = map_of [([], Dir), ([''tmp''], Dir), ([''repo''], Dir)]"

text \<open>A debugger child that succeeds and prints the greetings of the C and Rust fixtures.\<close>

definition greeting :: proc_result where
  "greeting = \<lparr>returncode = 0,
               stdout = ''x = 10 Hello from C! Sum is 30 Hello from Rust! Sum is 30'',
               stderr = ''''\<rparr>"

text \<open>A debugger child that fails, with the same output.\<close>

definition failing :: proc_result where
  "failing = greeting\<lparr>returncode := 1\<rparr>"

text \<open>
  \<open>host\<close>: every debugger command succeeds; \<open>gcc\<close> and \<open>rustc\<close> are installed and compile,
  Python runs but cannot import \<open>debugpy\<close>, and \<open>dlv\<close> and \<open>go\<close> are not installed.
\<close>

definition host_tool :: "string list \<Rightarrow> tool_result" where
  "host_tool cmd =
     (if take 1 cmd = [''gcc''] \<or> take 1 cmd = [''rustc''] then Exited 0
      else if take 1 cmd = [''python3''] then Exited 1
      else NotInstalled)"

definition host :: world where
  "host = \<lparr>debugger = (\<lambda>n iv. greeting), tool = host_tool, project_root = [''repo''],
           python_exe = ''python3'', tempdir = [''tmp''], tmp_names = (\<lambda>n. ''a''),
           tmp_max = 10000\<rparr>"

text \<open>The same host without \<open>gcc\<close>.\<close>

definition host_without_gcc :: world where
  "host_without_gcc =
     host\<lparr>tool := (\<lambda>cmd. if take 1 cmd = [''gcc''] then NotInstalled else host_tool cmd)\<rparr>"

text \<open>The same host, except that child number \<open>k\<close> of the run fails.\<close>

definition host_failing_at :: "nat \<Rightarrow> world" where
  "host_failing_at k = host\<lparr>debugger := (\<lambda>n iv. if n = k then failing else greeting)\<rparr>"

text \<open>The config root \<open>setup_config\<close> makes on this host, and a state in which it exists.\<close>

definition host_config_dir :: path where
  "host_config_dir = [''tmp'', ''debugger-test-config-a'']"

definition provisioned :: hstate where
  "provisioned = initial (host_fs(host_config_dir \<mapsto> Dir))"

text \<open>The same host, except that every debugger child prints only \<open>x = 10\<close>.\<close>

definition host_wrong_output :: world where
  "host_wrong_output = host\<lparr>debugger := (\<lambda>n iv. greeting\<lparr>stdout := ''x = 10''\<rparr>)\<rparr>"

text \<open>What the hosts above have in common.\<close>

definition host_like :: "world \<Rightarrow> bool" where
  "host_like w =
     (project_root w = [''repo''] \<and> python_exe w = ''python3'' \<and> tempdir w = [''tmp''] \<and>
      tmp_names w 0 = ''a'' \<and> tmp_max w = 10000 \<and>
      tool w [''python3'', ''-c'', ''import debugpy''] = Exited 1 \<and>
      tool w [''dlv'', ''version''] = NotInstalled)"


section \<open>Running the model step by step\<close>

lemma and_then_apply:
  "and_then m f s = (case fst (m s) of Inl e \<Rightarrow> (Inl e, snd (m s)) | Inr x \<Rightarrow> f x (snd (m s)))"
  by (simp add: and_then_def split: prod.splits sum.splits)

lemma try_except_apply:
  "try_except m h s = (case fst (m s) of Inl e \<Rightarrow> h e (snd (m s)) | Inr x \<Rightarrow> (Inr x, snd (m s)))"
  by (simp add: try_except_def split: prod.splits sum.splits)

lemma return_apply: "return x s = (Inr x, s)"
  by (simp add: return_def)

lemma raise_apply: "raise e s = (Inl e, s)"
  by (simp add: raise_def)

lemma log_fst: "fst (log m s) = Inr ()"
  by (simp add: log_def)

lemma log_snd:
  "fs (snd (log m s)) = fs s"
  "spawned (snd (log m s)) = spawned s"
  "names_drawn (snd (log m s)) = names_drawn s"
  "report (snd (log m s)) = report s"
  by (simp_all add: log_def)

lemma log_transcript: "transcript (snd (log m s)) = transcript s @ [m]"
  by (simp add: log_def)

lemma note_outcome_fst: "fst (note_outcome name oc s) = Inr ()"
  by (simp add: note_outcome_def)

lemma note_outcome_snd:
  "fs (snd (note_outcome name oc s)) = fs s"
  "spawned (snd (note_outcome name oc s)) = spawned s"
  "names_drawn (snd (note_outcome name oc s)) = names_drawn s"
  "report (snd (note_outcome name oc s)) = report s @ [(name, oc)]"
  by (simp_all add: note_outcome_def)

lemma exists_prog_fst: "fst (exists_prog p s) = Inr (path_exists (fs s) p)"
  by (simp add: exists_prog_def)

lemma exists_prog_snd: "snd (exists_prog p s) = s"
  by (simp add: exists_prog_def)

lemma env_ready_log: "env_ready d (snd (log m s)) = env_ready d s"
  by (simp add: env_ready_def log_snd)

lemma env_ready_note: "env_ready d (snd (note_outcome name oc s)) = env_ready d s"
  by (simp add: env_ready_def note_outcome_snd)

subsection \<open>The library calls\<close>






lemma makedirs_child:
  assumes "f d = Some Dir" and "f (d @ [c]) \<noteq> Some File"
  shows "makedirs f (d @ [c]) = Inr (f(d @ [c] \<mapsto> Dir))"
proof (cases "f (d @ [c])")
  case None
  then show ?thesis
    using assms by (simp add: makedirs_def path_exists_def mkdir_def)
next
  case (Some n)
  then have "f (d @ [c]) = Some Dir"
    using assms(2) by (cases n) auto
  then show ?thesis
    using assms by (auto simp add: makedirs_def path_exists_def mkdir_def isdir_def fun_upd_idem)
qed

lemma rmtree_dir: "f d = Some Dir \<Longrightarrow> rmtree f d = Inr (\<lambda>q. if prefix d q then None else f q)"
  by (simp add: rmtree_def)


lemma rmtree_absent: "f d = None \<Longrightarrow> rmtree f d = Inl FileNotFoundError"
  by (simp add: rmtree_def)

lemma check_call_fst:
  "fst (check_call w cmd s) =
     (case tool w cmd of
        NotInstalled \<Rightarrow> Inl FileNotFoundError
      | Exited rc \<Rightarrow> if rc = 0 then Inr () else Inl (CalledProcessError rc))"
  by (simp add: check_call_def return_def raise_def split: tool_result.splits)

lemma check_call_snd: "snd (check_call w cmd s) = s"
  by (simp add: check_call_def return_def raise_def split: tool_result.splits)

lemma quiet_compile_c: "quiet (compile_c w)"
  by (simp add: quiet_def compile_c_def Let_def and_then_apply log_fst log_snd check_call_snd
      split: sum.splits)

lemma quiet_compile_rust: "quiet (compile_rust w)"
  by (simp add: quiet_def compile_rust_def Let_def and_then_apply log_fst log_snd check_call_snd
      split: sum.splits)

lemma quiet_compile_go: "quiet (compile_go w)"
  by (simp add: quiet_def compile_go_def Let_def and_then_apply log_fst log_snd check_call_snd
      split: sum.splits)

lemma compile_c_fst:
  "fst (compile_c w a b s) = fst (check_call w [GCC, ''-g'', ''-o'', path_str b, path_str a] s)"
  by (simp add: compile_c_def Let_def and_then_apply log_fst check_call_fst)

lemma compile_rust_fst:
  "fst (compile_rust w a b s) = fst (check_call w [RUSTC, ''-g'', ''-o'', path_str b, path_str a] s)"
  by (simp add: compile_rust_def Let_def and_then_apply log_fst check_call_fst)

lemma compile_go_fst:
  "fst (compile_go w a b s) =
     fst (check_call w [GO, ''build'', ''-gcflags=all=-N -l'', ''-o'', path_str b, path_str a] s)"
  by (simp add: compile_go_def Let_def and_then_apply log_fst check_call_fst)

lemma quiet_snd:
  assumes "quiet f"
  shows "fs (snd (f a b s)) = fs s" "spawned (snd (f a b s)) = spawned s"
    "names_drawn (snd (f a b s)) = names_drawn s" "report (snd (f a b s)) = report s"
  using assms by (simp_all add: quiet_def)

lemma env_ready_quiet: "quiet f \<Longrightarrow> env_ready d (snd (f a b s)) = env_ready d s"
  by (simp add: env_ready_def quiet_snd)

subsection \<open>\<open>run_debugger_command\<close>\<close>

lemma rdc_fst:
  assumes "env_ready d s"
  shows "fst (run_debugger_command w cmd (Some d) inp s)
         = Inr (session_outcome (debugger w (length (spawned s)) (invocation_of w cmd d inp)))"
  using assms
  by (simp add: run_debugger_command_def env_ready_def Let_def and_then_def log_def fs_call_def
      makedirs_child return_def popen_communicate_def session_outcome_def invocation_of_def env_of_def)

lemma rdc_snd:
  assumes "env_ready d s"
  shows "fs (snd (run_debugger_command w cmd (Some d) inp s)) = (fs s)(d @ [''runtime''] \<mapsto> Dir)"
    "spawned (snd (run_debugger_command w cmd (Some d) inp s)) = spawned s @ [invocation_of w cmd d inp]"
    "names_drawn (snd (run_debugger_command w cmd (Some d) inp s)) = names_drawn s"
    "report (snd (run_debugger_command w cmd (Some d) inp s)) = report s"
  using assms
  by (simp_all add: run_debugger_command_def env_ready_def Let_def and_then_def log_def fs_call_def
      makedirs_child return_def popen_communicate_def invocation_of_def env_of_def)

lemma env_ready_rdc:
  assumes "env_ready d s"
  shows "env_ready d (snd (run_debugger_command w cmd (Some d) inp s))"
  using assms rdc_snd(1) [OF assms] by (simp add: env_ready_def)

lemmas exec_simps = and_then_apply try_except_apply return_apply raise_apply log_fst log_snd
  note_outcome_fst note_outcome_snd exists_prog_fst exists_prog_snd env_ready_log env_ready_note
  rdc_fst rdc_snd env_ready_rdc quiet_snd env_ready_quiet


subsection \<open>\<open>test_program\<close> and \<open>test_complex_python\<close> in closed form\<close>


lemma tp_fst:
  assumes "env_ready d s" and "quiet_opt cf"
  shows "fst (test_program w name src cf expected (Some d) args s)
         = Inr (case debug_target w name src cf s of
                  None \<Rightarrow> False
                | Some t \<Rightarrow> session_passes w d (length (spawned s)) t args expected)"
  using assms
  by (cases cf)
     (simp_all add: test_program_def Let_def exec_simps session_outcome_def split_def
      session_passes_def commands_issued_def captured_output_def step_ok_def start_cmd_def
      debug_target_def quiet_opt_def eval_nat_numeral split: sum.splits)

lemma tp_spawned:
  assumes "env_ready d s" and "quiet_opt cf"
  shows "spawned (snd (test_program w name src cf expected (Some d) args s))
         = spawned s @
           (case debug_target w name src cf s of
              None \<Rightarrow> []
            | Some t \<Rightarrow> map (\<lambda>c. invocation_of w c d None)
                         (take (commands_issued w d (length (spawned s)) t args)
                            (session_cmds t args)))"
  using assms
  by (cases cf)
     (simp_all add: test_program_def Let_def exec_simps session_outcome_def split_def
      commands_issued_def step_ok_def start_cmd_def session_cmds_def
      debug_target_def quiet_opt_def eval_nat_numeral split: sum.splits)

lemma tp_state:
  assumes "env_ready d s" and "quiet_opt cf"
  shows "env_ready d (snd (test_program w name src cf expected (Some d) args s))"
    "report (snd (test_program w name src cf expected (Some d) args s)) = report s"
    "names_drawn (snd (test_program w name src cf expected (Some d) args s)) = names_drawn s"
  using assms
  by (cases cf;
      simp add: test_program_def Let_def exec_simps session_outcome_def split_def
      quiet_opt_def split: sum.splits)+

lemma tp_fs:
  assumes "env_ready d s" and "quiet_opt cf"
  shows "fs (snd (test_program w name src cf expected (Some d) args s)) q
         = (if q = d @ [''runtime''] \<and> debug_target w name src cf s \<noteq> None then Some Dir else fs s q)"
  using assms
  by (cases cf)
     (simp_all add: test_program_def Let_def exec_simps session_outcome_def split_def
      debug_target_def quiet_opt_def split: sum.splits)



lemma tcp_fst:
  assumes "env_ready d s"
  shows "fst (test_complex_python w (Some d) s) = Inr (complex_passes w d s)"
  using assms
  by (simp add: test_complex_python_def Let_def exec_simps session_outcome_def split_def
      complex_passes_def complex_issued_def complex_main_py_def complex_start_cmd_def
      step_ok_def eval_nat_numeral)

lemma tcp_spawned:
  assumes "env_ready d s"
  shows "spawned (snd (test_complex_python w (Some d) s))
         = spawned s @ take (complex_issued w d s) (complex_invocations w d)"
  using assms
  by (simp add: test_complex_python_def Let_def exec_simps session_outcome_def split_def
      complex_invocations_def complex_issued_def complex_main_py_def complex_start_cmd_def
      step_ok_def eval_nat_numeral)

lemma tcp_state:
  assumes "env_ready d s"
  shows "env_ready d (snd (test_complex_python w (Some d) s))"
    "report (snd (test_complex_python w (Some d) s)) = report s"
    "names_drawn (snd (test_complex_python w (Some d) s)) = names_drawn s"
  using assms
  by (simp_all add: test_complex_python_def Let_def exec_simps session_outcome_def split_def)

lemma check_debugpy_fst:
  "fst (check_debugpy w s) =
     (case tool w [PYTHON w, ''-c'', ''import debugpy''] of
        NotInstalled \<Rightarrow> Inl FileNotFoundError
      | Exited rc \<Rightarrow> Inr (rc = 0))"
  by (simp add: check_debugpy_def exec_simps check_call_fst check_call_snd split: tool_result.splits)

lemma check_debugpy_snd: "snd (check_debugpy w s) = s"
  by (simp add: check_debugpy_def exec_simps check_call_fst check_call_snd split: tool_result.splits)

lemma check_delve_fst:
  "fst (check_delve w s) = Inr (tool w [''dlv'', ''version''] = Exited 0)"
  by (simp add: check_delve_def exec_simps check_call_fst check_call_snd split: tool_result.splits)

lemma check_delve_snd: "snd (check_delve w s) = s"
  by (simp add: check_delve_def exec_simps check_call_fst check_call_snd split: tool_result.splits)


subsection \<open>The blocks of \<open>main\<close>\<close>


lemma command_of_invocation: "command_of (invocation_of w c d inp) = c"
  by (simp add: command_of_def invocation_of_def)

lemma carries_invocation: "carries d (invocation_of w c d inp)"
  by (simp add: carries_def invocation_of_def)

lemma starts_guarded_append:
  "starts_guarded b (xs @ ys) =
     (starts_guarded b xs \<and> starts_guarded (if xs = [] then b else last xs = [''stop'']) ys)"
  by (induction xs arbitrary: b) auto

lemma segment_ok_Nil: "segment_ok d []"
  by (simp add: segment_ok_def)

lemma segment_ok_append: "segment_ok d xs \<Longrightarrow> segment_ok d ys \<Longrightarrow> segment_ok d (xs @ ys)"
  by (cases "last (map command_of xs) = [''stop'']")
     (auto simp add: segment_ok_def starts_guarded_append)

lemma session_segment_ok:
  "segment_ok d (map (\<lambda>c. invocation_of w c d None)
                  (take (commands_issued w d n t args) (session_cmds t args)))"
  by (simp add: segment_ok_def commands_issued_def session_cmds_def start_cmd_def
      command_of_invocation carries_invocation)

lemma complex_segment_ok: "segment_ok d (take (complex_issued w d s) (complex_invocations w d))"
  by (simp add: segment_ok_def complex_issued_def complex_invocations_def complex_start_cmd_def
      command_of_invocation carries_invocation)

lemma tp_segment:
  assumes "env_ready d s" and "quiet_opt cf"
  shows "\<exists>seg. spawned (snd (test_program w name src cf expected (Some d) args s)) = spawned s @ seg
               \<and> segment_ok d seg"
  using tp_spawned [OF assms] session_segment_ok segment_ok_Nil
  by (auto split: option.splits)

lemma tcp_segment:
  assumes "env_ready d s"
  shows "\<exists>seg. spawned (snd (test_complex_python w (Some d) s)) = spawned s @ seg \<and> segment_ok d seg"
  using tcp_spawned [OF assms] complex_segment_ok by auto



lemma quiet_opt_simps:
  "quiet_opt None" "quiet_opt (Some (compile_c w))" "quiet_opt (Some (compile_rust w))"
  "quiet_opt (Some (compile_go w))"
  by (simp_all add: quiet_opt_def quiet_compile_c quiet_compile_rust quiet_compile_go)

lemma fs_call_apply:
  "fs_call g s = (case g (fs s) of Inl e \<Rightarrow> (Inl e, s) | Inr f' \<Rightarrow> (Inr (), s\<lparr>fs := f'\<rparr>))"
  by (simp add: fs_call_def)

lemma block_after_test_program:
  assumes "env_ready d s" and "quiet_opt cf"
  shows "block_result d name failed s
           (and_then (test_program w tname src cf expected (Some d) args) (\<lambda>passed.
            and_then (note_outcome name (verdict passed)) (\<lambda>_.
            return (if \<not> passed then True else failed))) s)"
  using tp_fst [OF assms, of w tname src expected args] tp_segment [OF assms, of w tname src expected args]
    tp_state(1) [OF assms, of w tname src expected args]
    tp_state(2) [OF assms, of w tname src expected args]
  by (auto simp add: block_result_def exec_simps verdict_def)

lemma test_c_block_result:
  "env_ready d s \<Longrightarrow> block_result d ''test_c'' failed s (test_c_block w d failed s)"
  unfolding test_c_block_def by (rule block_after_test_program) (simp_all add: quiet_opt_simps)

lemma test_rust_block_result:
  "env_ready d s \<Longrightarrow> block_result d ''test_rs'' failed s (test_rust_block w d failed s)"
  unfolding test_rust_block_def by (rule block_after_test_program) (simp_all add: quiet_opt_simps)

lemma block_result_skip:
  assumes "env_ready d s"
  shows "block_result d name failed s
           (and_then (note_outcome name Skipped) (\<lambda>_. return failed) s)"
  using assms by (simp add: block_result_def exec_simps segment_ok_Nil)

lemma block_result_log_skip:
  assumes "env_ready d s"
  shows "block_result d name failed s
           (and_then (log m) (\<lambda>_. and_then (note_outcome name Skipped) (\<lambda>_. return failed)) s)"
  using assms by (simp add: block_result_def exec_simps segment_ok_Nil)

lemma block_result_raise:
  assumes "env_ready d s"
  shows "block_result d name failed s (Inl e, s)"
  using assms by (simp add: block_result_def segment_ok_Nil)

lemma block_result_shift:
  assumes "block_result d name failed s1 rs" and "spawned s1 = spawned s" and "report s1 = report s"
  shows "block_result d name failed s rs"
  using assms by (auto simp add: block_result_def split: sum.splits)

lemma write_file_env_ready:
  assumes "env_ready d s" and "fs s (t @ [''hello_world.py'']) = None"
    and "write_file (fs s) (t @ [''hello_world.py'']) = Inr f'"
  shows "env_ready d (s\<lparr>fs := f'\<rparr>)"
proof -
  have "t @ [''hello_world.py''] \<noteq> d"
    using assms(1,2) by (auto simp add: env_ready_def)
  moreover have "t @ [''hello_world.py''] \<noteq> d @ [''runtime'']"
    by simp
  moreover have "f' = (fs s)(t @ [''hello_world.py''] \<mapsto> File)"
    using assms(3) by (auto simp add: write_file_def split: if_splits option.splits node.splits)
  ultimately show ?thesis
    using assms(1) by (simp add: env_ready_def)
qed

lemma test_python_block_result:
  assumes "env_ready d s"
  shows "block_result d ''test_py'' failed s (test_python_block w d failed s)"
proof (cases "fst (check_debugpy w s)")
  case (Inl e)
  then show ?thesis
    using assms
    by (simp add: test_python_block_def and_then_apply check_debugpy_snd block_result_raise)
next
  case (Inr have_debugpy)
  show ?thesis
  proof (cases have_debugpy)
    case False
    with Inr show ?thesis
      using block_result_log_skip [OF assms]
      by (simp add: test_python_block_def and_then_apply [of "check_debugpy w"] check_debugpy_snd)
  next
    case True
    let ?p = "TEST_DIR w @ [''hello_world.py'']"
    let ?rest = "and_then (test_program w ''test_py'' ''hello_world.py'' None
                    ''Hello from Python! Sum is 30'' (Some d) [''--adapter'', ''debugpy'']) (\<lambda>passed.
                 and_then (note_outcome ''test_py'' (verdict passed)) (\<lambda>_.
                 return (if \<not> passed then True else failed)))"
    show ?thesis
    proof (cases "path_exists (fs s) ?p")
      case True
      have "test_python_block w d failed s = ?rest s"
        using Inr \<open>have_debugpy\<close> True
        by (simp add: test_python_block_def Let_def and_then_apply [of "check_debugpy w"]
            and_then_apply [of "exists_prog _"] and_then_apply [of "return _"]
            check_debugpy_snd exists_prog_fst exists_prog_snd return_apply)
      then show ?thesis
        using block_after_test_program [OF assms, of None] by (simp add: quiet_opt_simps)
    next
      case False
      then have absent: "fs s ?p = None" by (simp add: path_exists_def)
      show ?thesis
      proof (cases "write_file (fs s) ?p")
        case (Inl e)
        have "test_python_block w d failed s = (Inl e, s)"
          using Inr \<open>have_debugpy\<close> False Inl
          by (simp add: test_python_block_def Let_def and_then_apply check_debugpy_snd
              exists_prog_fst exists_prog_snd fs_call_apply)
        then show ?thesis using block_result_raise [OF assms] by simp
      next
        case (Inr f')
        let ?s1 = "s\<lparr>fs := f'\<rparr>"
        have ready: "env_ready d ?s1"
          using write_file_env_ready [OF assms absent Inr] .
        have "test_python_block w d failed s = ?rest ?s1"
          using \<open>fst (check_debugpy w s) = Inr have_debugpy\<close> \<open>have_debugpy\<close> False Inr
          by (simp add: test_python_block_def Let_def and_then_apply check_debugpy_snd
              exists_prog_fst exists_prog_snd fs_call_apply)
        moreover have "block_result d ''test_py'' failed ?s1 (?rest ?s1)"
          using block_after_test_program [OF ready, of None] by (simp add: quiet_opt_simps)
        ultimately show ?thesis
          using block_result_shift [of d "''test_py''" failed ?s1 "?rest ?s1" s] by simp
      qed
    qed
  qed
qed

lemma test_go_block_result:
  assumes "env_ready d s"
  shows "block_result d ''test_go'' failed s (test_go_block w d failed s)"
proof (cases "tool w [''dlv'', ''version''] = Exited 0")
  case False
  then show ?thesis
    using block_result_log_skip [OF assms]
    by (simp add: test_go_block_def and_then_apply [of "check_delve w"] check_delve_fst check_delve_snd)
next
  case True
  show ?thesis
  proof (cases "path_exists (fs s) (TEST_DIR w @ [''hello_world.go''])")
    case False
    with True show ?thesis
      using block_result_log_skip [OF assms]
      by (simp add: test_go_block_def Let_def and_then_apply [of "check_delve w"]
          and_then_apply [of "exists_prog _"] check_delve_fst check_delve_snd
          exists_prog_fst exists_prog_snd)
  next
    case found: True
    with True show ?thesis
      using block_after_test_program [OF assms, of "Some (compile_go w)"]
      by (simp add: test_go_block_def Let_def and_then_apply [of "check_delve w"]
          and_then_apply [of "exists_prog _"] check_delve_fst check_delve_snd
          exists_prog_fst exists_prog_snd quiet_opt_simps)
  qed
qed

lemma test_complex_block_result:
  assumes "env_ready d s"
  shows "block_result d ''complex_python'' failed s (test_complex_block w d failed s)"
proof (cases "fst (check_debugpy w s)")
  case (Inl e)
  then show ?thesis
    using assms
    by (simp add: test_complex_block_def and_then_apply check_debugpy_snd block_result_raise)
next
  case (Inr have_debugpy)
  show ?thesis
  proof (cases have_debugpy)
    case False
    with Inr show ?thesis
      using block_result_skip [OF assms]
      by (simp add: test_complex_block_def and_then_apply [of "check_debugpy w"] check_debugpy_snd)
  next
    case True
    with Inr show ?thesis
      using tcp_fst [OF assms, of w] tcp_segment [OF assms, of w] tcp_state(1,2) [OF assms, of w]
      by (auto simp add: test_complex_block_def block_result_def exec_simps check_debugpy_snd verdict_def)
  qed
qed



lemma and_then_return_right: "and_then m return = m"
  by (rule ext) (simp add: and_then_def return_def split: prod.splits sum.splits)

lemma run_blocks_Nil_fun: "run_blocks [] = return"
  by (rule ext) simp

lemma run_blocks_Cons_fun: "run_blocks (b # bs) = (\<lambda>failed. and_then (b failed) (run_blocks bs))"
  by (rule ext) simp

lemma main_try_run_blocks:
  "main_try w d = run_blocks [test_c_block w d, test_rust_block w d, test_python_block w d,
                              test_go_block w d, test_complex_block w d] False"
  by (simp add: main_try_def run_blocks_Cons_fun run_blocks_Nil_fun and_then_return_right)

lemma run_blocks_result:
  assumes "list_all2 (\<lambda>name b. \<forall>failed s. env_ready d s \<longrightarrow> block_result d name failed s (b failed s))
             names bs"
    and "env_ready d s"
  shows "blocks_result d names failed s (run_blocks bs failed s)"
  using assms
proof (induction names bs arbitrary: failed s rule: list_all2_induct)
  case Nil
  then show ?case
    by (simp add: blocks_result_def return_apply segment_ok_Nil)
next
  case (Cons name names b bs)
  let ?s1 = "snd (b failed s)"
  have b1: "block_result d name failed s (b failed s)"
    using Cons.hyps(1) Cons.prems by blast
  then have ready1: "env_ready d ?s1"
    by (simp add: block_result_def)
  from b1 obtain seg1 where seg1: "spawned ?s1 = spawned s @ seg1" "segment_ok d seg1"
    by (auto simp add: block_result_def)
  show ?case
  proof (cases "fst (b failed s)")
    case (Inl e)
    then have "report ?s1 = report s @ zip (name # names) []"
      using b1 by (simp add: block_result_def)
    then show ?thesis
      using Inl ready1 seg1
      by (auto simp add: blocks_result_def and_then_apply intro: exI [of _ "[]"])
  next
    case (Inr f)
    then obtain oc where oc: "report ?s1 = report s @ [(name, oc)]" "f = (failed \<or> oc = Failed)"
      using b1 by (auto simp add: block_result_def)
    let ?rs = "run_blocks bs f ?s1"
    have rest: "blocks_result d names f ?s1 ?rs"
      using Cons.IH [OF ready1] .
    then obtain seg2 ocs where
      seg2: "spawned (snd ?rs) = spawned ?s1 @ seg2" "segment_ok d seg2" and
      ocs: "report (snd ?rs) = report ?s1 @ zip names ocs" "length ocs \<le> length names"
        "case fst ?rs of Inl e \<Rightarrow> length ocs < length names
         | Inr f' \<Rightarrow> length ocs = length names \<and> f' = (f \<or> Failed \<in> set ocs)"
      by (auto simp add: blocks_result_def)
    have run: "run_blocks (b # bs) failed s = ?rs"
      using Inr by (simp add: and_then_apply)
    have "spawned (snd ?rs) = spawned s @ (seg1 @ seg2)" "segment_ok d (seg1 @ seg2)"
      using seg1 seg2 by (simp_all add: segment_ok_append)
    moreover have "report (snd ?rs) = report s @ zip (name # names) (oc # ocs)"
      using oc(1) ocs(1) by simp
    moreover have "length (oc # ocs) \<le> length (name # names)"
      using ocs(2) by simp
    moreover have "case fst ?rs of Inl e \<Rightarrow> length (oc # ocs) < length (name # names)
         | Inr f' \<Rightarrow> length (oc # ocs) = length (name # names) \<and> f' = (failed \<or> Failed \<in> set (oc # ocs))"
      using ocs(3) oc(2) by (auto split: sum.splits)
    moreover have "env_ready d (snd ?rs)"
      using rest by (simp add: blocks_result_def)
    ultimately show ?thesis
      unfolding run blocks_result_def by blast
  qed
qed

lemma main_try_result:
  assumes "env_ready d s"
  shows "blocks_result d scenario_names False s (main_try w d s)"
  unfolding main_try_run_blocks scenario_names_def
  by (rule run_blocks_result [OF _ assms])
     (simp add: test_c_block_result test_rust_block_result test_python_block_result
        test_go_block_result test_complex_block_result)


subsection \<open>\<open>setup_config\<close> and \<open>main\<close>\<close>


lemma mkdtemp_loop_quiet:
  "spawned (snd (mkdtemp_loop w pfx n s)) = spawned s \<and> report (snd (mkdtemp_loop w pfx n s)) = report s"
  by (induction n arbitrary: s) (auto simp add: raise_apply Let_def split: sum.splits)

lemma mkdtemp_loop_fresh:
  "fst (mkdtemp_loop w pfx n s) = Inr d \<Longrightarrow>
     fs s d = None \<and> butlast d = tempdir w \<and> d \<noteq> [] \<and> fs (snd (mkdtemp_loop w pfx n s)) = (fs s)(d \<mapsto> Dir)"
proof (induction n arbitrary: s)
  case 0
  then show ?case by (simp add: raise_apply)
next
  case (Suc n)
  let ?file = "tempdir w @ [pfx @ tmp_names w (names_drawn s)]"
  let ?s1 = "s\<lparr>names_drawn := Suc (names_drawn s)\<rparr>"
  show ?case
  proof (cases "mkdir (fs s) ?file")
    case (Inl e)
    with Suc.prems have again: "fst (mkdtemp_loop w pfx n ?s1) = Inr d"
      and same: "mkdtemp_loop w pfx (Suc n) s = mkdtemp_loop w pfx n ?s1"
      by (auto simp add: Let_def split: if_splits)
    show ?thesis
      using Suc.IH [OF again] same by simp
  next
    case (Inr f')
    with Suc.prems have d: "d = ?file" and run: "mkdtemp_loop w pfx (Suc n) s = (Inr ?file, ?s1\<lparr>fs := f'\<rparr>)"
      by (auto simp add: Let_def)
    from Inr have "fs s ?file = None" "f' = (fs s)(?file \<mapsto> Dir)"
      by (auto simp add: mkdir_def split: if_splits option.splits node.splits)
    then show ?thesis
      using d run by simp
  qed
qed

lemma setup_config_quiet:
  "spawned (snd (setup_config w s)) = spawned s \<and> report (snd (setup_config w s)) = report s"
  using mkdtemp_loop_quiet [of w "''debugger-test-config-''" "tmp_max w" s]
  by (auto simp add: setup_config_def mkdtemp_def Let_def and_then_apply fs_call_apply return_apply
      split: sum.splits)

lemma write_file_result:
  "write_file f p = Inr f' \<Longrightarrow> f' = f(p \<mapsto> File)"
  by (auto simp add: write_file_def split: if_splits option.splits node.splits)


lemma tree_fs_child: "tree_fs f \<Longrightarrow> f d = None \<Longrightarrow> f (d @ [c]) = None"
  unfolding tree_fs_def by (metis butlast_snoc option.distinct(1) snoc_eq_iff_butlast)

lemma setup_config_ready:
  assumes "tree_fs (fs s)" and "fst (setup_config w s) = Inr d"
  shows "env_ready d (snd (setup_config w s))"
proof -
  let ?m = "mkdtemp_loop w ''debugger-test-config-'' (tmp_max w) s"
  let ?dc = "d @ [''debugger-cli'']"
  from assms(2) have m: "fst ?m = Inr d"
    by (auto simp add: setup_config_def mkdtemp_def Let_def and_then_apply fs_call_apply return_apply
        split: sum.splits)
  note fresh = mkdtemp_loop_fresh [OF m]
  from assms(2) m obtain f2 f3 where
    f2: "makedirs (fs (snd ?m)) ?dc = Inr f2" and
    f3: "write_file f2 (?dc @ [''config.toml'']) = Inr f3" and
    final: "fs (snd (setup_config w s)) = f3"
    by (auto simp add: setup_config_def mkdtemp_def Let_def and_then_apply fs_call_apply return_apply
        split: sum.splits)
  have none: "fs s (d @ [''runtime'']) = None" "fs s ?dc = None"
    using tree_fs_child [OF assms(1)] fresh by simp_all
  have "makedirs (fs (snd ?m)) ?dc = Inr ((fs (snd ?m))(?dc \<mapsto> Dir))"
    using fresh none by (intro makedirs_child) simp_all
  with f2 have "f2 = (fs s)(d \<mapsto> Dir, ?dc \<mapsto> Dir)"
    using fresh by simp
  then have "f3 = (fs s)(d \<mapsto> Dir, ?dc \<mapsto> Dir, ?dc @ [''config.toml''] \<mapsto> File)"
    using write_file_result [OF f3] by simp
  then show ?thesis
    using final none by (simp add: env_ready_def)
qed



lemma try_finally_apply:
  "try_finally m c s =
     (case fst (c (snd (m s))) of
        Inl e \<Rightarrow> (Inl e, snd (c (snd (m s))))
      | Inr u \<Rightarrow> (fst (m s), snd (c (snd (m s)))))"
  by (simp add: try_finally_def split: prod.splits sum.splits)

lemma main_no_binary:
  assumes "\<not> path_exists (fs s) (DEBUGGER_BIN w)"
  shows "fst (main w s) = Inr 1" "fs (snd (main w s)) = fs s" "spawned (snd (main w s)) = spawned s"
    "report (snd (main w s)) = report s" "names_drawn (snd (main w s)) = names_drawn s"
  using assms by (simp_all add: main_def exec_simps)


text \<open>The state in which the \<open>try\<close> block of \<open>main\<close> starts.\<close>

lemma main_ran:
  assumes "path_exists (fs s) (DEBUGGER_BIN w)" and "tree_fs (fs s)"
    and "fst (setup_config w s) = Inr d"
  shows "env_ready d (try_start w d s)"
    and "spawned (try_start w d s) = spawned s"
    and "report (try_start w d s) = report s"
    and "fst (main w s) = (case fst (main_try w d (try_start w d s)) of
                            Inl e \<Rightarrow> Inl e | Inr failed \<Rightarrow> Inr (if failed then 1 else 0))"
    and "spawned (snd (main w s)) = spawned (snd (main_try w d (try_start w d s)))"
    and "report (snd (main w s)) = report (snd (main_try w d (try_start w d s)))"
    and "fs (snd (main w s)) = (\<lambda>q. if prefix d q then None else fs (snd (main_try w d (try_start w d s))) q)"
  unfolding try_start_def
proof -
  let ?s2 = "snd (log (Msg (''Created temp config dir at '' @ path_str d)) (snd (setup_config w s)))"
  let ?rs = "main_try w d ?s2"
  show ready: "env_ready d ?s2"
    using setup_config_ready [OF assms(2,3)] by (simp add: env_ready_log del: append.simps)
  show "spawned ?s2 = spawned s" "report ?s2 = report s"
    using setup_config_quiet [of w s] by (simp_all add: log_snd del: append.simps)
  have "env_ready d (snd ?rs)"
    using main_try_result [OF ready, of w] by (simp add: blocks_result_def del: append.simps)
  then have rm: "rmtree (fs (snd ?rs)) d = Inr (\<lambda>q. if prefix d q then None else fs (snd ?rs) q)"
    by (simp add: env_ready_def rmtree_dir del: append.simps)
  have fin: "try_finally (main_try w d) (fs_call (\<lambda>f. rmtree f d)) ?s2
             = (fst ?rs, (snd ?rs)\<lparr>fs := (\<lambda>q. if prefix d q then None else fs (snd ?rs) q)\<rparr>)"
    using rm by (simp add: try_finally_apply fs_call_apply del: append.simps)
  have unfold: "main w s = (case fst ?rs of
                     Inl e \<Rightarrow> (Inl e, snd (try_finally (main_try w d) (fs_call (\<lambda>f. rmtree f d)) ?s2))
                   | Inr failed \<Rightarrow>
                       (if failed then return 1
                        else and_then (log (Msg ''All tests passed!'')) (\<lambda>_. return 0))
                         (snd (try_finally (main_try w d) (fs_call (\<lambda>f. rmtree f d)) ?s2)))"
    using assms(1,3) fin
    by (simp add: main_def and_then_apply [of "exists_prog _"] and_then_apply [of "setup_config w"]
        and_then_apply [of "log _"] and_then_apply [of "try_finally _ _"]
        exists_prog_fst exists_prog_snd log_fst del: append.simps)
  show "fst (main w s) = (case fst ?rs of Inl e \<Rightarrow> Inl e | Inr failed \<Rightarrow> Inr (if failed then 1 else 0))"
    unfolding unfold by (simp add: exec_simps del: append.simps split: sum.splits)
  show "spawned (snd (main w s)) = spawned (snd ?rs)"
    unfolding unfold using fin by (simp add: exec_simps del: append.simps split: sum.splits)
  show "report (snd (main w s)) = report (snd ?rs)"
    unfolding unfold using fin by (simp add: exec_simps del: append.simps split: sum.splits)
  show "fs (snd (main w s)) = (\<lambda>q. if prefix d q then None else fs (snd ?rs) q)"
    unfolding unfold using fin by (simp add: exec_simps del: append.simps split: sum.splits)
qed



lemma tp_fst_passes:
  assumes "env_ready d s" and "quiet_opt cf"
  shows "fst (test_program w name src cf expected (Some d) args s)
         = Inr (scenario_passes w d name src cf expected args s)"
  using tp_fst [OF assms] by (simp add: scenario_passes_def)

lemma tp_spawned_trace:
  assumes "env_ready d s" and "quiet_opt cf"
  shows "spawned (snd (test_program w name src cf expected (Some d) args s))
         = spawned s @ scenario_trace w d name src cf args s"
  using tp_spawned [OF assms] by (simp add: scenario_trace_def)

lemma debug_target_c:
  "debug_target w ''test_c'' ''hello_world.c'' (Some (compile_c w)) s
   = (if tool w (gcc_cmd w) = Exited 0 then Some (TEST_DIR w @ [''test_c'']) else None)"
  by (simp add: debug_target_def compile_c_fst check_call_fst gcc_cmd_def
      split: tool_result.splits sum.splits)

lemma debug_target_rust:
  "debug_target w ''test_rs'' ''hello_world.rs'' (Some (compile_rust w)) s
   = (if tool w (rustc_cmd w) = Exited 0 then Some (TEST_DIR w @ [''test_rs'']) else None)"
  by (simp add: debug_target_def compile_rust_fst check_call_fst rustc_cmd_def
      split: tool_result.splits sum.splits)

lemma debug_target_go:
  "debug_target w ''test_go'' ''hello_world.go'' (Some (compile_go w)) s
   = (if tool w (go_cmd w) = Exited 0 then Some (TEST_DIR w @ [''test_go'']) else None)"
  by (simp add: debug_target_def compile_go_fst check_call_fst go_cmd_def
      split: tool_result.splits sum.splits)

lemma debug_target_none: "debug_target w name src None s = Some (TEST_DIR w @ [src])"
  by (simp add: debug_target_def)

lemma test_c_block_eval:
  assumes "env_ready d s"
  shows "fst (test_c_block w d failed s)
         = Inr (failed \<or> \<not> scenario_passes w d ''test_c'' ''hello_world.c'' (Some (compile_c w))
                               ''Hello from C! Sum is 30'' [] s)"
    and "report (snd (test_c_block w d failed s))
         = report s @ [(''test_c'', verdict (scenario_passes w d ''test_c'' ''hello_world.c''
                          (Some (compile_c w)) ''Hello from C! Sum is 30'' [] s))]"
    and "spawned (snd (test_c_block w d failed s))
         = spawned s @ scenario_trace w d ''test_c'' ''hello_world.c'' (Some (compile_c w)) [] s"
    and "env_ready d (snd (test_c_block w d failed s))"
  using assms test_c_block_result [OF assms, of failed w]
  by (auto simp add: test_c_block_def and_then_apply return_apply note_outcome_fst note_outcome_snd
      tp_fst_passes tp_spawned_trace tp_state quiet_opt_simps block_result_def)

lemma test_rust_block_eval:
  assumes "env_ready d s"
  shows "fst (test_rust_block w d failed s)
         = Inr (failed \<or> \<not> scenario_passes w d ''test_rs'' ''hello_world.rs'' (Some (compile_rust w))
                               ''Hello from Rust! Sum is 30'' [] s)"
    and "report (snd (test_rust_block w d failed s))
         = report s @ [(''test_rs'', verdict (scenario_passes w d ''test_rs'' ''hello_world.rs''
                          (Some (compile_rust w)) ''Hello from Rust! Sum is 30'' [] s))]"
    and "spawned (snd (test_rust_block w d failed s))
         = spawned s @ scenario_trace w d ''test_rs'' ''hello_world.rs'' (Some (compile_rust w)) [] s"
    and "env_ready d (snd (test_rust_block w d failed s))"
  using assms test_rust_block_result [OF assms, of failed w]
  by (auto simp add: test_rust_block_def and_then_apply return_apply note_outcome_fst note_outcome_snd
      tp_fst_passes tp_spawned_trace tp_state quiet_opt_simps block_result_def)

lemma test_python_block_skip:
  assumes "tool w (debugpy_probe w) = Exited rc" and "rc \<noteq> 0"
  shows "fst (test_python_block w d failed s) = Inr failed"
    and "report (snd (test_python_block w d failed s)) = report s @ [(''test_py'', Skipped)]"
    and "spawned (snd (test_python_block w d failed s)) = spawned s"
    and "fs (snd (test_python_block w d failed s)) = fs s"
  using assms
  by (simp_all add: test_python_block_def exec_simps check_debugpy_fst check_debugpy_snd
      debugpy_probe_def)

lemma test_complex_block_skip:
  assumes "tool w (debugpy_probe w) = Exited rc" and "rc \<noteq> 0"
  shows "fst (test_complex_block w d failed s) = Inr failed"
    and "report (snd (test_complex_block w d failed s)) = report s @ [(''complex_python'', Skipped)]"
    and "spawned (snd (test_complex_block w d failed s)) = spawned s"
    and "fs (snd (test_complex_block w d failed s)) = fs s"
  using assms
  by (simp_all add: test_complex_block_def exec_simps check_debugpy_fst check_debugpy_snd
      debugpy_probe_def)

lemma test_go_block_skip:
  assumes "tool w delve_probe \<noteq> Exited 0 \<or> \<not> path_exists (fs s) (TEST_DIR w @ [''hello_world.go''])"
  shows "fst (test_go_block w d failed s) = Inr failed"
    and "report (snd (test_go_block w d failed s)) = report s @ [(''test_go'', Skipped)]"
    and "spawned (snd (test_go_block w d failed s)) = spawned s"
    and "fs (snd (test_go_block w d failed s)) = fs s"
  using assms
  by (auto simp add: test_go_block_def exec_simps check_delve_fst check_delve_snd delve_probe_def
      Let_def)

lemma test_go_block_eval:
  assumes "env_ready d s" and "tool w delve_probe = Exited 0"
    and "path_exists (fs s) (TEST_DIR w @ [''hello_world.go''])"
  shows "fst (test_go_block w d failed s)
         = Inr (failed \<or> \<not> scenario_passes w d ''test_go'' ''hello_world.go'' (Some (compile_go w))
                               ''Hello from Go! Sum is 30'' [''--adapter'', ''go''] s)"
    and "report (snd (test_go_block w d failed s))
         = report s @ [(''test_go'', verdict (scenario_passes w d ''test_go'' ''hello_world.go''
                          (Some (compile_go w)) ''Hello from Go! Sum is 30'' [''--adapter'', ''go''] s))]"
  using assms
  by (auto simp add: test_go_block_def Let_def and_then_apply return_apply note_outcome_fst
      note_outcome_snd check_delve_fst check_delve_snd exists_prog_fst exists_prog_snd
      delve_probe_def tp_fst_passes tp_state quiet_opt_simps)

lemma block_env_ready:
  assumes "env_ready d s"
  shows "env_ready d (snd (test_python_block w d failed s))"
    and "env_ready d (snd (test_go_block w d failed s))"
    and "env_ready d (snd (test_complex_block w d failed s))"
  using test_python_block_result [OF assms, of failed w] test_go_block_result [OF assms, of failed w]
    test_complex_block_result [OF assms, of failed w]
  by (simp_all add: block_result_def)



subsection \<open>The concrete hosts\<close>

lemma host_simps:
  "debugger host n iv = greeting" "tool host = host_tool" "project_root host = [''repo'']"
  "python_exe host = ''python3''" "tempdir host = [''tmp'']" "tmp_names host n = ''a''"
  "tmp_max host = 10000"
  by (simp_all add: host_def)

lemma tree_host_fs: "tree_fs host_fs"
  by (auto simp add: tree_fs_def host_fs_def split: if_splits)

lemma tree_bare_fs: "tree_fs bare_fs"
  by (auto simp add: tree_fs_def bare_fs_def split: if_splits)


lemma bare_binary: "\<not> path_exists bare_fs (DEBUGGER_BIN host)"
  by (simp add: path_exists_def bare_fs_def DEBUGGER_BIN_def host_simps)

lemma provisioned_ready: "env_ready host_config_dir provisioned"
  by (simp add: env_ready_def provisioned_def initial_def host_config_dir_def host_fs_def)

lemma provisioned_simps:
  "spawned provisioned = []" "report provisioned = []"
  by (simp_all add: provisioned_def initial_def)







lemma main_finally_is_destroy:
  "main w =
     and_then (exists_prog (DEBUGGER_BIN w)) (\<lambda>found.
     if \<not> found then
       and_then (log (Msg (''Debugger binary not found at '' @ path_str (DEBUGGER_BIN w)
                            @ ''. Please build release first.''))) (\<lambda>_.
       return 1)
     else
     and_then (setup_config w) (\<lambda>config_dir.
     and_then (log (Msg (''Created temp config dir at '' @ path_str config_dir))) (\<lambda>_.
     and_then (try_finally (main_try w config_dir) (destroy config_dir)) (\<lambda>failed.
     if failed then return 1
     else and_then (log (Msg ''All tests passed!'')) (\<lambda>_. return 0)))))"
  unfolding main_def destroy_def ..



subsection \<open>Changing the answer of one child\<close>

























lemma greeting_simps:
  "returncode greeting = 0" "returncode failing = 1"
  "str_in ''Hello from C! Sum is 30'' (stdout greeting)"
  "str_in ''Hello from C! Sum is 30'' (stdout failing)"
  "str_in ''Hello from Rust! Sum is 30'' (stdout greeting)"
  by (simp_all add: greeting_def failing_def)








lemma mkdtemp_loop_first:
  assumes "0 < n" and "mkdir (fs s) (tempdir w @ [pfx @ tmp_names w (names_drawn s)]) = Inr f'"
  shows "mkdtemp_loop w pfx n s
         = (Inr (tempdir w @ [pfx @ tmp_names w (names_drawn s)]),
            s\<lparr>names_drawn := Suc (names_drawn s), fs := f'\<rparr>)"
  using assms by (cases n) (simp_all add: Let_def)

lemma host_setup_config:
  assumes "tmp_max w = 10000" "tempdir w = [''tmp'']" "tmp_names w 0 = ''a''"
  shows "fst (setup_config w (initial host_fs)) = Inr host_config_dir"
proof -
  have mk: "mkdir host_fs [''tmp'', ''debugger-test-config-a'']
            = Inr (host_fs([''tmp'', ''debugger-test-config-a''] \<mapsto> Dir))"
    by (simp add: mkdir_def host_fs_def)
  have loop: "mkdtemp_loop w ''debugger-test-config-'' (tmp_max w) (initial host_fs)
      = (Inr host_config_dir,
         (initial host_fs)\<lparr>names_drawn := Suc 0, fs := host_fs(host_config_dir \<mapsto> Dir)\<rparr>)"
    using mkdtemp_loop_first [of "tmp_max w" "initial host_fs" w "''debugger-test-config-''"
        "host_fs([''tmp'', ''debugger-test-config-a''] \<mapsto> Dir)"] mk assms
    by (simp add: initial_def host_config_dir_def)
  have dirs: "makedirs (host_fs(host_config_dir \<mapsto> Dir)) (host_config_dir @ [''debugger-cli''])
      = Inr (host_fs(host_config_dir \<mapsto> Dir, host_config_dir @ [''debugger-cli''] \<mapsto> Dir))"
    by (rule makedirs_child) (simp_all add: host_fs_def host_config_dir_def)
  have conf: "write_file (host_fs(host_config_dir \<mapsto> Dir, host_config_dir @ [''debugger-cli''] \<mapsto> Dir))
                (host_config_dir @ [''debugger-cli''] @ [''config.toml''])
      = Inr (host_fs(host_config_dir \<mapsto> Dir, host_config_dir @ [''debugger-cli''] \<mapsto> Dir,
                     host_config_dir @ [''debugger-cli''] @ [''config.toml''] \<mapsto> File))"
    by (simp add: write_file_def host_fs_def host_config_dir_def)
  show ?thesis
    using loop dirs conf
    by (simp add: setup_config_def mkdtemp_def Let_def and_then_apply fs_call_apply return_apply)
qed

lemma main_try_no_adapters:
  assumes "env_ready d s" and "tool w (debugpy_probe w) = Exited rc" and "rc \<noteq> 0"
    and "tool w delve_probe \<noteq> Exited 0"
  shows "fst (main_try w d s)
         = Inr (\<not> scenario_passes w d ''test_c'' ''hello_world.c'' (Some (compile_c w))
                     ''Hello from C! Sum is 30'' [] s \<or>
                \<not> scenario_passes w d ''test_rs'' ''hello_world.rs'' (Some (compile_rust w))
                     ''Hello from Rust! Sum is 30'' [] (snd (test_c_block w d False s)))"
    and "report (snd (main_try w d s))
         = report s @
           [(''test_c'', verdict (scenario_passes w d ''test_c'' ''hello_world.c'' (Some (compile_c w))
                                    ''Hello from C! Sum is 30'' [] s)),
            (''test_rs'', verdict (scenario_passes w d ''test_rs'' ''hello_world.rs''
                                     (Some (compile_rust w)) ''Hello from Rust! Sum is 30'' []
                                     (snd (test_c_block w d False s)))),
            (''test_py'', Skipped), (''test_go'', Skipped), (''complex_python'', Skipped)]"
    and "spawned (snd (main_try w d s))
         = spawned s @ scenario_trace w d ''test_c'' ''hello_world.c'' (Some (compile_c w)) [] s
             @ scenario_trace w d ''test_rs'' ''hello_world.rs'' (Some (compile_rust w)) []
                 (snd (test_c_block w d False s))"
proof -
  let ?s1 = "snd (test_c_block w d False s)"
  let ?f1 = "\<not> scenario_passes w d ''test_c'' ''hello_world.c'' (Some (compile_c w))
                     ''Hello from C! Sum is 30'' [] s"
  let ?s2 = "snd (test_rust_block w d ?f1 ?s1)"
  let ?f2 = "?f1 \<or> \<not> scenario_passes w d ''test_rs'' ''hello_world.rs'' (Some (compile_rust w))
                     ''Hello from Rust! Sum is 30'' [] ?s1"
  let ?s3 = "snd (test_python_block w d ?f2 ?s2)"
  let ?s4 = "snd (test_go_block w d ?f2 ?s3)"
  note c = test_c_block_eval [OF assms(1), where failed = False and w = w]
  note r = test_rust_block_eval [OF c(4), where failed = ?f1 and w = w]
  note p = test_python_block_skip [OF assms(2,3), where d = d and failed = ?f2 and s = ?s2]
  have go: "tool w delve_probe \<noteq> Exited 0 \<or> \<not> path_exists (fs ?s3) (TEST_DIR w @ [''hello_world.go''])"
    using assms(4) by simp
  note g = test_go_block_skip [OF go, where d = d and failed = ?f2]
  note x = test_complex_block_skip [OF assms(2,3), where d = d and failed = ?f2 and s = ?s4]
  have run: "main_try w d s = test_complex_block w d ?f2 ?s4"
    using c(1) r(1) p(1) g(1)
    by (simp add: main_try_def and_then_apply)
  show "fst (main_try w d s) = Inr ?f2"
    unfolding run using x(1) by simp
  show "report (snd (main_try w d s))
         = report s @
           [(''test_c'', verdict (scenario_passes w d ''test_c'' ''hello_world.c'' (Some (compile_c w))
                                    ''Hello from C! Sum is 30'' [] s)),
            (''test_rs'', verdict (scenario_passes w d ''test_rs'' ''hello_world.rs''
                                     (Some (compile_rust w)) ''Hello from Rust! Sum is 30'' []
                                     (snd (test_c_block w d False s)))),
            (''test_py'', Skipped), (''test_go'', Skipped), (''complex_python'', Skipped)]"
    unfolding run using x(2) g(2) p(2) r(2) c(2) by simp
  show "spawned (snd (main_try w d s))
         = spawned s @ scenario_trace w d ''test_c'' ''hello_world.c'' (Some (compile_c w)) [] s
             @ scenario_trace w d ''test_rs'' ''hello_world.rs'' (Some (compile_rust w)) [] ?s1"
    unfolding run using x(3) g(3) p(3) r(3) c(3) by simp
qed




lemma host_like_simps:
  assumes "host_like w"
  shows "project_root w = [''repo'']" "python_exe w = ''python3''" "tempdir w = [''tmp'']"
    "tmp_names w 0 = ''a''" "tmp_max w = 10000" "tool w (debugpy_probe w) = Exited 1"
    "tool w delve_probe = NotInstalled" "path_exists host_fs (DEBUGGER_BIN w)"
  using assms
  by (simp_all add: host_like_def debugpy_probe_def delve_probe_def PYTHON_def DEBUGGER_BIN_def
      path_exists_def host_fs_def)

lemma host_like_hosts:
  "host_like host" "host_like host_without_gcc" "host_like (host_failing_at k)"
  "host_like host_wrong_output"
  by (simp_all add: host_like_def host_def host_without_gcc_def host_failing_at_def
      host_wrong_output_def host_tool_def)

lemma host_like_run:
  assumes "host_like w"
  defines "s2 \<equiv> try_start w host_config_dir (initial host_fs)"
  shows "fst (run w host_fs)
         = Inr (if scenario_passes w host_config_dir ''test_c'' ''hello_world.c'' (Some (compile_c w))
                     ''Hello from C! Sum is 30'' [] s2 \<and>
                   scenario_passes w host_config_dir ''test_rs'' ''hello_world.rs'' (Some (compile_rust w))
                     ''Hello from Rust! Sum is 30'' [] (snd (test_c_block w host_config_dir False s2))
                then 0 else 1)"
    and "report (snd (run w host_fs))
         = [(''test_c'', verdict (scenario_passes w host_config_dir ''test_c'' ''hello_world.c''
                                    (Some (compile_c w)) ''Hello from C! Sum is 30'' [] s2)),
            (''test_rs'', verdict (scenario_passes w host_config_dir ''test_rs'' ''hello_world.rs''
                                     (Some (compile_rust w)) ''Hello from Rust! Sum is 30'' []
                                     (snd (test_c_block w host_config_dir False s2)))),
            (''test_py'', Skipped), (''test_go'', Skipped), (''complex_python'', Skipped)]"
    and "spawned (snd (run w host_fs))
         = scenario_trace w host_config_dir ''test_c'' ''hello_world.c'' (Some (compile_c w)) [] s2
             @ scenario_trace w host_config_dir ''test_rs'' ''hello_world.rs'' (Some (compile_rust w)) []
                 (snd (test_c_block w host_config_dir False s2))"
    and "spawned s2 = []"
    and "env_ready host_config_dir s2"
proof -
  note h = host_like_simps [OF assms(1)]
  have bin: "path_exists (fs (initial host_fs)) (DEBUGGER_BIN w)"
    using h(8) by (simp add: initial_def)
  have tree: "tree_fs (fs (initial host_fs))"
    using tree_host_fs by (simp add: initial_def)
  have made: "fst (setup_config w (initial host_fs)) = Inr host_config_dir"
    using host_setup_config [OF h(5,3,4)] .
  note ran = main_ran [OF bin tree made]
  have dlv: "tool w delve_probe \<noteq> Exited 0"
    using h(7) by simp
  have rc: "(1::int) \<noteq> 0" by simp
  note body = main_try_no_adapters [OF ran(1) h(6) rc dlv]
  show "env_ready host_config_dir s2"
    using ran(1) by (simp add: s2_def)
  show "spawned s2 = []"
    using ran(2) by (simp add: s2_def initial_def)
  show "fst (run w host_fs)
         = Inr (if scenario_passes w host_config_dir ''test_c'' ''hello_world.c'' (Some (compile_c w))
                     ''Hello from C! Sum is 30'' [] s2 \<and>
                   scenario_passes w host_config_dir ''test_rs'' ''hello_world.rs'' (Some (compile_rust w))
                     ''Hello from Rust! Sum is 30'' [] (snd (test_c_block w host_config_dir False s2))
                then 0 else 1)"
    using ran(4) body(1) by (simp add: run_def s2_def)
  show "report (snd (run w host_fs))
         = [(''test_c'', verdict (scenario_passes w host_config_dir ''test_c'' ''hello_world.c''
                                    (Some (compile_c w)) ''Hello from C! Sum is 30'' [] s2)),
            (''test_rs'', verdict (scenario_passes w host_config_dir ''test_rs'' ''hello_world.rs''
                                     (Some (compile_rust w)) ''Hello from Rust! Sum is 30'' []
                                     (snd (test_c_block w host_config_dir False s2)))),
            (''test_py'', Skipped), (''test_go'', Skipped), (''complex_python'', Skipped)]"
    using ran(3,6) body(2) by (simp add: run_def s2_def initial_def)
  show "spawned (snd (run w host_fs))
         = scenario_trace w host_config_dir ''test_c'' ''hello_world.c'' (Some (compile_c w)) [] s2
             @ scenario_trace w host_config_dir ''test_rs'' ''hello_world.rs'' (Some (compile_rust w)) []
                 (snd (test_c_block w host_config_dir False s2))"
    using ran(2,5) body(3) by (simp add: run_def s2_def initial_def)
qed




lemma const_debugger_scenario:
  assumes "\<And>n iv. debugger w n iv = p" and "returncode p = 0"
    and "debug_target w name src cf s = Some t"
  shows "scenario_passes w d name src cf expected args s = str_in expected (stdout p)"
    and "scenario_trace w d name src cf args s = map (\<lambda>c. invocation_of w c d None) (session_cmds t args)"
  using assms
  by (simp_all add: scenario_passes_def scenario_trace_def session_passes_def commands_issued_def
      step_ok_def captured_output_def session_cmds_def)

lemma failed_compile_scenario:
  assumes "debug_target w name src cf s = None"
  shows "\<not> scenario_passes w d name src cf expected args s"
    and "scenario_trace w d name src cf args s = []"
  using assms by (simp_all add: scenario_passes_def scenario_trace_def)

lemma host_targets:
  "debug_target host ''test_c'' ''hello_world.c'' (Some (compile_c host)) s
     = Some [''repo'', ''tests'', ''e2e'', ''test_c'']"
  "debug_target host ''test_rs'' ''hello_world.rs'' (Some (compile_rust host)) s
     = Some [''repo'', ''tests'', ''e2e'', ''test_rs'']"
  "debug_target host_without_gcc ''test_c'' ''hello_world.c'' (Some (compile_c host_without_gcc)) s
     = None"
  "debug_target host_without_gcc ''test_rs'' ''hello_world.rs'' (Some (compile_rust host_without_gcc)) s
     = Some [''repo'', ''tests'', ''e2e'', ''test_rs'']"
  "debug_target host_wrong_output ''test_c'' ''hello_world.c'' (Some (compile_c host_wrong_output)) s
     = Some [''repo'', ''tests'', ''e2e'', ''test_c'']"
  "debug_target host_wrong_output ''test_rs'' ''hello_world.rs'' (Some (compile_rust host_wrong_output)) s
     = Some [''repo'', ''tests'', ''e2e'', ''test_rs'']"
  by (simp_all add: debug_target_c debug_target_rust gcc_cmd_def rustc_cmd_def GCC_def RUSTC_def
      host_def host_without_gcc_def host_wrong_output_def host_tool_def TEST_DIR_def)




lemma host_without_gcc_run:
  "fst (run host_without_gcc host_fs) = Inr 1"
  "report (snd (run host_without_gcc host_fs))
   = [(''test_c'', Failed), (''test_rs'', Passed), (''test_py'', Skipped), (''test_go'', Skipped),
      (''complex_python'', Skipped)]"
proof -
  have d: "\<And>n iv. debugger host_without_gcc n iv = greeting"
    by (simp add: host_without_gcc_def host_def)
  note c = failed_compile_scenario [OF host_targets(3)]
  note r = const_debugger_scenario [OF d greeting_simps(1) host_targets(4)]
  note run = host_like_run [OF host_like_hosts(2)]
  show "fst (run host_without_gcc host_fs) = Inr 1"
    unfolding run(1) using c(1) by simp
  show "report (snd (run host_without_gcc host_fs))
   = [(''test_c'', Failed), (''test_rs'', Passed), (''test_py'', Skipped), (''test_go'', Skipped),
      (''complex_python'', Skipped)]"
    unfolding run(2) r(1) using c(1) by (simp add: greeting_simps verdict_def)
qed

lemma host_wrong_output_run:
  "fst (run host_wrong_output host_fs) = Inr 1"
  "report (snd (run host_wrong_output host_fs))
   = [(''test_c'', Failed), (''test_rs'', Failed), (''test_py'', Skipped), (''test_go'', Skipped),
      (''complex_python'', Skipped)]"
proof -
  have d: "\<And>n iv. debugger host_wrong_output n iv = greeting\<lparr>stdout := ''x = 10''\<rparr>"
    by (simp add: host_wrong_output_def host_def)
  have ok: "returncode (greeting\<lparr>stdout := ''x = 10''\<rparr>) = 0"
    by (simp add: greeting_def)
  have out: "\<not> str_in ''Hello from C! Sum is 30'' (stdout (greeting\<lparr>stdout := ''x = 10''\<rparr>))"
    "\<not> str_in ''Hello from Rust! Sum is 30'' (stdout (greeting\<lparr>stdout := ''x = 10''\<rparr>))"
    by simp_all
  note c = const_debugger_scenario [OF d ok host_targets(5)]
  note r = const_debugger_scenario [OF d ok host_targets(6)]
  note run = host_like_run [OF host_like_hosts(4)]
  show "fst (run host_wrong_output host_fs) = Inr 1"
    unfolding run(1) c(1) using out by simp
  show "report (snd (run host_wrong_output host_fs))
   = [(''test_c'', Failed), (''test_rs'', Failed), (''test_py'', Skipped), (''test_go'', Skipped),
      (''complex_python'', Skipped)]"
    unfolding run(2) c(1) r(1) using out by (simp add: verdict_def)
qed











lemma compile_failure_fails:
  assumes "env_ready d s"
  shows "tool w (gcc_cmd w) \<noteq> Exited 0 \<longrightarrow>
           fst (test_c_block w d failed s) = Inr True \<and>
           report (snd (test_c_block w d failed s)) = report s @ [(''test_c'', Failed)] \<and>
           spawned (snd (test_c_block w d failed s)) = spawned s"
    and "tool w (rustc_cmd w) \<noteq> Exited 0 \<longrightarrow>
           fst (test_rust_block w d failed s) = Inr True \<and>
           report (snd (test_rust_block w d failed s)) = report s @ [(''test_rs'', Failed)] \<and>
           spawned (snd (test_rust_block w d failed s)) = spawned s"
    and "tool w delve_probe = Exited 0 \<and> path_exists (fs s) (TEST_DIR w @ [''hello_world.go'']) \<and>
         tool w (go_cmd w) \<noteq> Exited 0 \<longrightarrow>
           fst (test_go_block w d failed s) = Inr True \<and>
           report (snd (test_go_block w d failed s)) = report s @ [(''test_go'', Failed)]"
  using test_c_block_eval [OF assms, where failed = failed and w = w]
    test_rust_block_eval [OF assms, where failed = failed and w = w]
    test_go_block_eval [OF assms, where failed = failed and w = w]
  by (simp_all add: scenario_passes_def scenario_trace_def debug_target_c debug_target_rust
      debug_target_go verdict_def)










section \<open>The claims\<close>

text \<open>
  C10. If the debugger binary does not exist at its expected path, \<open>main\<close> returns exit
  code 1 at once: no name is drawn for a temporary directory, the file system is left
  as it was, no debugger child is spawned and no scenario is reported.
\<close>

theorem missing_binary_exits_first:
  assumes "\<not> path_exists fs0 (DEBUGGER_BIN w)"
  shows "fst (run w fs0) = Inr 1 \<and> exit_status (fst (run w fs0)) = 1 \<and>
         fs (snd (run w fs0)) = fs0 \<and> names_drawn (snd (run w fs0)) = 0 \<and>
         spawned (snd (run w fs0)) = [] \<and> report (snd (run w fs0)) = []"
proof -
  have "\<not> path_exists (fs (initial fs0)) (DEBUGGER_BIN w)"
    using assms by (simp add: initial_def)
  from main_no_binary [OF this] show ?thesis
    by (simp add: run_def exit_status_def initial_def)
qed

theorem missing_binary_exits_first_witness:
  "\<not> path_exists bare_fs (DEBUGGER_BIN host) \<and> fst (run host bare_fs) = Inr 1 \<and>
   exit_status (fst (run host bare_fs)) = 1 \<and>
   fs (snd (run host bare_fs)) = bare_fs \<and> names_drawn (snd (run host bare_fs)) = 0 \<and>
   spawned (snd (run host bare_fs)) = [] \<and> report (snd (run host bare_fs)) = []"
  using missing_binary_exits_first [OF bare_binary] bare_binary by blast



text \<open>
  C4, as the code has it. The cleanup is \<open>shutil.rmtree(config_dir)\<close> with errors not
  ignored. When the config root is a directory it succeeds, removes the root with
  everything below it and touches nothing else. When the directory is already absent
  it raises \<open>FileNotFoundError\<close> and changes nothing; so a second cleanup after a
  successful one raises: the operation is not idempotent.
\<close>

theorem destroy_removes_or_raises:
  "(fs s d = Some Dir \<longrightarrow>
      fst (destroy d s) = Inr () \<and>
      (\<forall>q. fs (snd (destroy d s)) q = (if prefix d q then None else fs s q)) \<and>
      fst (destroy d (snd (destroy d s))) = Inl FileNotFoundError) \<and>
   (fs s d = None \<longrightarrow> fst (destroy d s) = Inl FileNotFoundError \<and> snd (destroy d s) = s)"
  by (simp add: destroy_def fs_call_apply rmtree_def)

theorem destroy_removes_or_raises_witness:
  "fs provisioned host_config_dir = Some Dir \<and>
   fst (destroy host_config_dir provisioned) = Inr () \<and>
   fs (snd (destroy host_config_dir provisioned)) host_config_dir = None \<and>
   fs (snd (destroy host_config_dir provisioned)) [''tmp''] = Some Dir \<and>
   fst (destroy host_config_dir (snd (destroy host_config_dir provisioned))) = Inl FileNotFoundError \<and>
   fs (initial host_fs) host_config_dir = None \<and>
   fst (destroy host_config_dir (initial host_fs)) = Inl FileNotFoundError \<and>
   snd (destroy host_config_dir (initial host_fs)) = initial host_fs"
proof -
  have present: "fs provisioned host_config_dir = Some Dir"
    using provisioned_ready by (simp add: env_ready_def)
  have absent: "fs (initial host_fs) host_config_dir = None"
    by (simp add: initial_def host_fs_def host_config_dir_def)
  have tmp: "fs provisioned [''tmp''] = Some Dir" "\<not> prefix host_config_dir [''tmp'']"
    by (simp_all add: provisioned_def initial_def host_fs_def host_config_dir_def)
  show ?thesis
    using destroy_removes_or_raises [of provisioned host_config_dir]
      destroy_removes_or_raises [of "initial host_fs" host_config_dir] present absent tmp
    by simp
qed

text \<open>
  C4, as the claim states it, fails: on a host where the directory is absent the
  cleanup raises.
\<close>

theorem destroy_absent_counterexample:
  "fs (initial host_fs) host_config_dir = None \<and>
   fst (destroy host_config_dir (initial host_fs)) = Inl FileNotFoundError"
  by (simp add: destroy_def fs_call_apply rmtree_def initial_def host_fs_def host_config_dir_def)













text \<open>
  C2, as the claim states it, fails: on the host without \<open>gcc\<close> the C scenario is
  reported failed, not skipped, and the run exits with 1.
\<close>

theorem missing_compiler_counterexample:
  "tool host_without_gcc (gcc_cmd host_without_gcc) = NotInstalled \<and>
   report (snd (run host_without_gcc host_fs)) ! 0 = (''test_c'', Failed) \<and>
   exit_status (fst (run host_without_gcc host_fs)) = 1"
proof -
  have "tool host_without_gcc (gcc_cmd host_without_gcc) = NotInstalled"
    by (simp add: host_without_gcc_def gcc_cmd_def GCC_def)
  then show ?thesis
    by (simp add: host_without_gcc_run exit_status_def)
qed

text \<open>
  C2, as the code has it. Only debug adapters are probed. When the probe of its adapter
  says the adapter is absent (\<open>import debugpy\<close> exits non-zero for the Python and the
  complex-Python scenario; \<open>dlv version\<close> cannot be run or exits non-zero for Go), or
  when the Go source is missing, the scenario is skipped: the flag \<open>failed\<close> is left as
  it was and no debugger child is spawned. There is no probe for a compiler: when the
  compile command of a scenario cannot be run or exits non-zero, the scenario is
  reported failed.
\<close>

theorem absent_adapter_skips_failed_compile_fails:
  assumes "env_ready d s"
  shows "((\<exists>rc. tool w (debugpy_probe w) = Exited rc \<and> rc \<noteq> 0) \<longrightarrow>
            fst (test_python_block w d failed s) = Inr failed \<and>
            report (snd (test_python_block w d failed s)) = report s @ [(''test_py'', Skipped)] \<and>
            spawned (snd (test_python_block w d failed s)) = spawned s \<and>
            fst (test_complex_block w d failed s) = Inr failed \<and>
            report (snd (test_complex_block w d failed s)) = report s @ [(''complex_python'', Skipped)] \<and>
            spawned (snd (test_complex_block w d failed s)) = spawned s) \<and>
         (tool w delve_probe \<noteq> Exited 0 \<or> \<not> path_exists (fs s) (TEST_DIR w @ [''hello_world.go'']) \<longrightarrow>
            fst (test_go_block w d failed s) = Inr failed \<and>
            report (snd (test_go_block w d failed s)) = report s @ [(''test_go'', Skipped)] \<and>
            spawned (snd (test_go_block w d failed s)) = spawned s) \<and>
         (tool w (gcc_cmd w) \<noteq> Exited 0 \<longrightarrow>
            fst (test_c_block w d failed s) = Inr True \<and>
            report (snd (test_c_block w d failed s)) = report s @ [(''test_c'', Failed)] \<and>
            spawned (snd (test_c_block w d failed s)) = spawned s) \<and>
         (tool w (rustc_cmd w) \<noteq> Exited 0 \<longrightarrow>
            fst (test_rust_block w d failed s) = Inr True \<and>
            report (snd (test_rust_block w d failed s)) = report s @ [(''test_rs'', Failed)] \<and>
            spawned (snd (test_rust_block w d failed s)) = spawned s) \<and>
         (tool w delve_probe = Exited 0 \<and> path_exists (fs s) (TEST_DIR w @ [''hello_world.go'']) \<and>
          tool w (go_cmd w) \<noteq> Exited 0 \<longrightarrow>
            fst (test_go_block w d failed s) = Inr True \<and>
            report (snd (test_go_block w d failed s)) = report s @ [(''test_go'', Failed)])"
proof -
  have py: "(\<exists>rc. tool w (debugpy_probe w) = Exited rc \<and> rc \<noteq> 0) \<longrightarrow>
            fst (test_python_block w d failed s) = Inr failed \<and>
            report (snd (test_python_block w d failed s)) = report s @ [(''test_py'', Skipped)] \<and>
            spawned (snd (test_python_block w d failed s)) = spawned s \<and>
            fst (test_complex_block w d failed s) = Inr failed \<and>
            report (snd (test_complex_block w d failed s)) = report s @ [(''complex_python'', Skipped)] \<and>
            spawned (snd (test_complex_block w d failed s)) = spawned s"
    using test_python_block_skip(1,2,3) [where w = w and d = d and failed = failed and s = s]
      test_complex_block_skip(1,2,3) [where w = w and d = d and failed = failed and s = s] by blast
  have go: "tool w delve_probe \<noteq> Exited 0 \<or> \<not> path_exists (fs s) (TEST_DIR w @ [''hello_world.go'']) \<longrightarrow>
            fst (test_go_block w d failed s) = Inr failed \<and>
            report (snd (test_go_block w d failed s)) = report s @ [(''test_go'', Skipped)] \<and>
            spawned (snd (test_go_block w d failed s)) = spawned s"
    using test_go_block_skip(1,2,3) [where w = w and d = d and failed = failed and s = s] by blast
  show ?thesis
    using py go compile_failure_fails [OF assms, where w = w and failed = failed] by blast
qed



theorem absent_adapter_skips_failed_compile_fails_witness:
  "env_ready host_config_dir provisioned \<and>
   tool host_without_gcc (debugpy_probe host_without_gcc) = Exited 1 \<and>
   fst (test_python_block host_without_gcc host_config_dir False provisioned) = Inr False \<and>
   report (snd (test_python_block host_without_gcc host_config_dir False provisioned))
     = [(''test_py'', Skipped)] \<and>
   tool host_without_gcc delve_probe \<noteq> Exited 0 \<and>
   fst (test_go_block host_without_gcc host_config_dir False provisioned) = Inr False \<and>
   report (snd (test_go_block host_without_gcc host_config_dir False provisioned))
     = [(''test_go'', Skipped)] \<and>
   tool host_without_gcc (gcc_cmd host_without_gcc) \<noteq> Exited 0 \<and>
   fst (test_c_block host_without_gcc host_config_dir False provisioned) = Inr True \<and>
   report (snd (test_c_block host_without_gcc host_config_dir False provisioned))
     = [(''test_c'', Failed)]"
proof -
  note h = host_like_simps [OF host_like_hosts(2)]
  have gcc: "tool host_without_gcc (gcc_cmd host_without_gcc) \<noteq> Exited 0"
    by (simp add: host_without_gcc_def gcc_cmd_def GCC_def)
  have py: "\<exists>rc. tool host_without_gcc (debugpy_probe host_without_gcc) = Exited rc \<and> rc \<noteq> 0"
    using h(6) by simp
  have dlv: "tool host_without_gcc delve_probe \<noteq> Exited 0"
    using h(7) by simp
  show ?thesis
    using absent_adapter_skips_failed_compile_fails [OF provisioned_ready, of host_without_gcc False]
      gcc py dlv h(6) provisioned_ready
    by (simp add: provisioned_simps)
qed






end
